theory Spec2Isabelle
  imports Main "HOL-Library.Char_ord" "HOL-Library.List_Lexorder"
begin

section \<open>Shipment event tracker: validators, event store and handlers\<close>

text \<open>
  The program is a set of three AWS Lambda handlers (record an event, read the latest
  event, read the paginated history) over one DynamoDB table keyed by
  \<open>(shipmentId, id)\<close>, with a validator module built on regular expressions and on
  the \<open>zod\<close> schema library.

  Conventions of the embedding.
  \<^item> A JavaScript string is represented by the bytes of its UTF-8 encoding, a
    \<^typ>\<open>string\<close>. ASCII characters are one byte each; every byte of a non-ASCII
    character is \<open>\<ge> 128\<close>.
  \<^item> A JavaScript number that is a time value is \<open>NaN\<close> or an integer of milliseconds.
  \<^item> Functions of the platform whose results the handlers only pass on (the \<open>Date\<close>
    parser and printer, \<open>JSON.parse\<close> of a request body, the \<open>uuid\<close> generator, the
    clock, the date-time pattern of \<open>zod\<close>) are fields of a record \<open>platform\<close>;
    every theorem holds for every platform unless it names one.
  \<^item> State (the table, the number of clock readings and of identifiers drawn) is passed
    explicitly; an exception is the left summand of a sum type.
\<close>

subsection \<open>Time values\<close>

datatype jsnum = NaN | Num int

text \<open>The relational operators of JavaScript on numbers: false as soon as one side is \<open>NaN\<close>.\<close>

fun js_le :: "jsnum \<Rightarrow> jsnum \<Rightarrow> bool" where
  "js_le (Num a) (Num b) = (a \<le> b)"
| "js_le _ _ = False"

fun js_ge :: "jsnum \<Rightarrow> jsnum \<Rightarrow> bool" where
  "js_ge (Num a) (Num b) = (a \<ge> b)"
| "js_ge _ _ = False"

fun js_minus :: "jsnum \<Rightarrow> jsnum \<Rightarrow> jsnum" where
  "js_minus (Num a) (Num b) = Num (a - b)"
| "js_minus _ _ = NaN"

subsection \<open>Character classes and anchored patterns\<close>

definition is_upper :: "char \<Rightarrow> bool" where
  "is_upper c = (CHR ''A'' \<le> c \<and> c \<le> CHR ''Z'')"

definition is_lower :: "char \<Rightarrow> bool" where
  "is_lower c = (CHR ''a'' \<le> c \<and> c \<le> CHR ''z'')"

definition is_digit :: "char \<Rightarrow> bool" where
  "is_digit c = (CHR ''0'' \<le> c \<and> c \<le> CHR ''9'')"

text \<open>
  \<open>Canonicalize\<close> of ECMAScript for the flag \<open>i\<close> without the flag \<open>u\<close>: a character is
  compared through its upper-case form, and a non-ASCII character is never identified
  with an ASCII one.
\<close>

definition canonicalize :: "char \<Rightarrow> char" where
  "canonicalize c = (if is_lower c then char_of (of_char c - (32::nat)) else c)"

text \<open>
  The patterns of the program are anchored at both ends and are sequences of bounded
  repetitions \<open>[class]{lo,hi}\<close> (a literal character is the class of that character
  repeated once). \<open>rx_match\<close> is \<open>RegExp.prototype.test\<close> on such a pattern: some way of
  cutting the whole input into consecutive blocks of admissible lengths exists, which is
  what the backtracking matcher searches for.
\<close>

datatype rx_item = Rep "char \<Rightarrow> bool" nat nat

fun rx_match :: "rx_item list \<Rightarrow> string \<Rightarrow> bool" where
  "rx_match [] s = (s = [])"
| "rx_match (Rep cls lo hi # items) s =
     list_ex (\<lambda>k. k \<le> length s \<and> list_all cls (take k s) \<and> rx_match items (drop k s))
       [lo..<Suc hi]"

definition lit :: "char \<Rightarrow> rx_item" where
  "lit c = Rep (\<lambda>x. x = c) 1 1"

definition ignore_case :: "rx_item \<Rightarrow> rx_item" where
  "ignore_case it = (case it of Rep cls lo hi \<Rightarrow> Rep (\<lambda>c. cls (canonicalize c)) lo hi)"

text \<open>
  \<^verbatim>\<open>SHIPMENT_ID_PATTERNS = [
    /^[A-Z]{2}\d{9}[A-Z]{2}$/,
    /^SHIP-\d{6,12}$/,
    /^[A-Z0-9-_]{5,50}$/i ]\<close>
\<close>

definition SHIPMENT_ID_PATTERNS :: "rx_item list list" where
  "SHIPMENT_ID_PATTERNS =
     [ [Rep is_upper 2 2, Rep is_digit 9 9, Rep is_upper 2 2],
       [lit CHR ''S'', lit CHR ''H'', lit CHR ''I'', lit CHR ''P'', lit CHR ''-'',
        Rep is_digit 6 12],
       [ignore_case
          (Rep (\<lambda>c. is_upper c \<or> is_digit c \<or> c = CHR ''-'' \<or> c = CHR ''_'') 5 50)] ]"

definition validateShipmentIdFormat :: "string \<Rightarrow> bool" where
  "validateShipmentIdFormat shipmentId =
     list_ex (\<lambda>pattern. rx_match pattern shipmentId) SHIPMENT_ID_PATTERNS"

text \<open>
  The three shapes as the specification words them, to be compared with the patterns.
\<close>

definition spec_upu_shape :: "string \<Rightarrow> bool" where
  "spec_upu_shape s =
     (length s = 13 \<and> list_all is_upper (take 2 s) \<and>
      list_all is_digit (take 9 (drop 2 s)) \<and> list_all is_upper (drop 11 s))"

definition spec_prefixed_shape :: "string \<Rightarrow> bool" where
  "spec_prefixed_shape s =
     (take 5 s = ''SHIP-'' \<and> 6 \<le> length (drop 5 s) \<and> length (drop 5 s) \<le> 12 \<and>
      list_all is_digit (drop 5 s))"

definition spec_generic_shape :: "string \<Rightarrow> bool" where
  "spec_generic_shape s =
     (5 \<le> length s \<and> length s \<le> 50 \<and>
      list_all (\<lambda>c. is_upper c \<or> is_lower c \<or> is_digit c \<or> c = CHR ''-'' \<or> c = CHR ''_'') s)"

subsection \<open>Strings and numerals\<close>

text \<open>
  \<open>String.prototype.length\<close> counts UTF-16 code units. On the UTF-8 bytes of a
  well-formed string that is one unit for every byte that starts a character (every byte
  that is not a continuation byte \<open>10xxxxxx\<close>) and one more for every character of four
  bytes (lead byte \<open>11110xxx\<close>), which is a surrogate pair.
\<close>

definition utf16_length :: "string \<Rightarrow> nat" where
  "utf16_length s =
     length (filter (\<lambda>c. \<not> (128 \<le> (of_char c :: nat) \<and> (of_char c :: nat) < 192)) s) +
     length (filter (\<lambda>c. 240 \<le> (of_char c :: nat)) s)"

text \<open>Template literals print a count in decimal.\<close>

definition digit_char :: "nat \<Rightarrow> char" where
  "digit_char d = char_of (48 + d)"

fun show_nat :: "nat \<Rightarrow> string" where
  "show_nat n = (if n < 10 then [digit_char n] else show_nat (n div 10) @ [digit_char (n mod 10)])"

declare show_nat.simps [simp del]

text \<open>\<open>Array.prototype.join(', ')\<close>.\<close>

fun join_comma :: "string list \<Rightarrow> string" where
  "join_comma [] = []"
| "join_comma [x] = x"
| "join_comma (x # y # ys) = x @ '', '' @ join_comma (y # ys)"

subsection \<open>\<open>parseInt(s, 10)\<close>\<close>

text \<open>
  Leading white space is skipped (the \<open>StrWhiteSpaceChar\<close> of ECMAScript: the ASCII
  ones, and, in UTF-8, U+00A0, U+1680, U+2000 to U+200A, U+2028, U+2029, U+202F,
  U+205F, U+3000 and U+FEFF), then an optional sign, then the longest run of decimal
  digits; with no digit the result is \<open>NaN\<close>. The result is given exactly; the double of
  JavaScript rounds above \<open>2^53\<close>, which no comparison with a bound below that can see.
\<close>

definition is_ascii_space :: "char \<Rightarrow> bool" where
  "is_ascii_space c = ((of_char c :: nat) \<in> {9, 10, 11, 12, 13, 32})"

fun trimStart :: "string \<Rightarrow> string" where
  "trimStart [] = []"
| "trimStart [a] = (if is_ascii_space a then [] else [a])"
| "trimStart [a, b] =
     (if is_ascii_space a then trimStart [b]
      else if (of_char a :: nat) = 194 \<and> (of_char b :: nat) = 160 then []
      else [a, b])"
| "trimStart (a # b # c # s) =
     (let x = (of_char a :: nat); y = (of_char b :: nat); z = (of_char c :: nat) in
      if is_ascii_space a then trimStart (b # c # s)
      else if x = 194 \<and> y = 160 then trimStart (c # s)
      else if (x = 225 \<and> y = 154 \<and> z = 128) \<or>
              (x = 226 \<and> y = 128 \<and> (128 \<le> z \<and> z \<le> 138 \<or> z = 168 \<or> z = 169 \<or> z = 175)) \<or>
              (x = 226 \<and> y = 129 \<and> z = 159) \<or>
              (x = 227 \<and> y = 128 \<and> z = 128) \<or>
              (x = 239 \<and> y = 187 \<and> z = 191)
           then trimStart s
      else a # b # c # s)"

definition digit_val :: "char \<Rightarrow> nat" where
  "digit_val c = of_char c - 48"

definition decimal_value :: "string \<Rightarrow> nat" where
  "decimal_value ds = foldl (\<lambda>acc c. 10 * acc + digit_val c) 0 ds"

definition parseInt10 :: "string \<Rightarrow> jsnum" where
  "parseInt10 s =
     (let t = trimStart s;
          neg = (t \<noteq> [] \<and> hd t = CHR ''-'');
          u = (if t \<noteq> [] \<and> (hd t = CHR ''-'' \<or> hd t = CHR ''+'') then tl t else t);
          ds = takeWhile is_digit u
      in if ds = [] then NaN
         else Num (if neg then - int (decimal_value ds) else int (decimal_value ds)))"

subsection \<open>The data model\<close>

text \<open>
  \<^verbatim>\<open>export enum ShipmentStatus { CREATED = 'created', PICKED_UP = 'picked_up', ... }\<close>
\<close>

datatype ShipmentStatus =
    CREATED | PICKED_UP | IN_TRANSIT | OUT_FOR_DELIVERY | DELIVERED
  | ATTEMPTED_DELIVERY | EXCEPTION | RETURNED | CANCELLED | ON_HOLD

fun status_string :: "ShipmentStatus \<Rightarrow> string" where
  "status_string CREATED = ''created''"
| "status_string PICKED_UP = ''picked_up''"
| "status_string IN_TRANSIT = ''in_transit''"
| "status_string OUT_FOR_DELIVERY = ''out_for_delivery''"
| "status_string DELIVERED = ''delivered''"
| "status_string ATTEMPTED_DELIVERY = ''attempted_delivery''"
| "status_string EXCEPTION = ''exception''"
| "status_string RETURNED = ''returned''"
| "status_string CANCELLED = ''cancelled''"
| "status_string ON_HOLD = ''on_hold''"

definition VALID_SHIPMENT_STATUSES :: "ShipmentStatus list" where
  "VALID_SHIPMENT_STATUSES =
     [CREATED, PICKED_UP, IN_TRANSIT, OUT_FOR_DELIVERY, DELIVERED,
      ATTEMPTED_DELIVERY, EXCEPTION, RETURNED, CANCELLED, ON_HOLD]"

fun SHIPMENT_STATUS_DESCRIPTIONS :: "ShipmentStatus \<Rightarrow> string" where
  "SHIPMENT_STATUS_DESCRIPTIONS CREATED =
     ''Shipment has been created and registered in the system''"
| "SHIPMENT_STATUS_DESCRIPTIONS PICKED_UP = ''Package has been picked up from sender''"
| "SHIPMENT_STATUS_DESCRIPTIONS IN_TRANSIT = ''Package is in transit between facilities''"
| "SHIPMENT_STATUS_DESCRIPTIONS OUT_FOR_DELIVERY = ''Package is out for delivery to recipient''"
| "SHIPMENT_STATUS_DESCRIPTIONS DELIVERED = ''Package has been successfully delivered''"
| "SHIPMENT_STATUS_DESCRIPTIONS ATTEMPTED_DELIVERY = ''Delivery was attempted but unsuccessful''"
| "SHIPMENT_STATUS_DESCRIPTIONS EXCEPTION = ''An exception occurred during processing''"
| "SHIPMENT_STATUS_DESCRIPTIONS RETURNED = ''Package is being returned to sender''"
| "SHIPMENT_STATUS_DESCRIPTIONS CANCELLED = ''Shipment has been cancelled''"
| "SHIPMENT_STATUS_DESCRIPTIONS ON_HOLD = ''Shipment is temporarily on hold''"

record ShipmentEvent =
  id' :: string
  shipmentId :: string
  timestamp :: string
  status :: ShipmentStatus
  location :: "string option"
  details :: "string option"
  createdAt :: string

record CreateEventRequest =
  req_timestamp :: string
  req_status :: ShipmentStatus
  req_location :: "string option"
  req_details :: "string option"

record GetEventsQuery =
  limit :: int
  startKey :: "string option"

text \<open>
  A parsed JSON value. A number keeps the one property the handlers observe, whether it
  is zero; the members of an object are listed in the order of the text, and a repeated
  name counts at its last occurrence.
\<close>

datatype json =
    JNull | JBool bool | JNum bool | JStr string | JArr "json list" | JObj "(string \<times> json) list"

fun truthy :: "json \<Rightarrow> bool" where
  "truthy JNull = False"
| "truthy (JBool b) = b"
| "truthy (JNum is_zero) = (\<not> is_zero)"
| "truthy (JStr s) = (s \<noteq> [])"
| "truthy (JArr _) = True"
| "truthy (JObj _) = True"

definition member :: "(string \<times> json) list \<Rightarrow> string \<Rightarrow> json option" where
  "member ms k = map_of (rev ms) k"

subsection \<open>Platform and state\<close>

text \<open>An exception: an \<open>Error\<close> with its \<open>name\<close>, or a thrown value that is not an \<open>Error\<close>.\<close>

datatype thrown = Error string | NonError

record platform =
  Date_parse :: "string \<Rightarrow> jsnum"
  Date_toISOString :: "int \<Rightarrow> string"
  JSON_parse :: "string \<Rightarrow> json option"
  zod_datetime :: "string \<Rightarrow> bool"
  uuidv4_nth :: "nat \<Rightarrow> string"
  clock_nth :: "nat \<Rightarrow> int"

text \<open>
  \<open>Date_parse s\<close> is the time value of \<open>new Date(s)\<close>, \<open>JSON_parse\<close> answers \<open>None\<close>
  where \<open>JSON.parse\<close> throws, \<open>zod_datetime\<close> is the pattern behind
  \<open>z.string().datetime()\<close>, \<open>uuidv4_nth n\<close> is the identifier that the \<open>n\<close>-th call of
  \<open>uuidv4()\<close> returns and \<open>clock_nth n\<close> the time that the \<open>n\<close>-th \<open>new Date()\<close> reads.

  The state: the items of the table, how many times the clock was read and how many
  identifiers were drawn, and the exception with which every request to the store
  fails while the store is out of order.
\<close>

record world =
  table :: "ShipmentEvent list"
  clock_reads :: nat
  uuids_drawn :: nat
  outage :: "thrown option"

definition new_Date :: "platform \<Rightarrow> world \<Rightarrow> int \<times> world" where
  "new_Date P w = (clock_nth P (clock_reads w), w\<lparr>clock_reads := Suc (clock_reads w)\<rparr>)"

definition uuidv4 :: "platform \<Rightarrow> world \<Rightarrow> string \<times> world" where
  "uuidv4 P w = (uuidv4_nth P (uuids_drawn w), w\<lparr>uuids_drawn := Suc (uuids_drawn w)\<rparr>)"

subsection \<open>The timestamp window\<close>

text \<open>
  \<^verbatim>\<open>const eventTime = new Date(timestamp);
  const now = new Date();
  const maxFutureTime = new Date(now.getTime() + 5 * 60 * 1000);
  const oneYear = new Date(now.getTime() - 365 * 24 * 60 * 60 * 1000);
  return eventTime <= maxFutureTime && eventTime >= oneYear;\<close>
  \<open>eventTime\<close> is the time value of the parsed string (\<open>NaN\<close> for an invalid date);
  the function reads the clock once.
\<close>

definition validateEventTimestamp :: "platform \<Rightarrow> world \<Rightarrow> string \<Rightarrow> bool \<times> world" where
  "validateEventTimestamp P w ts =
     (let eventTime = Date_parse P ts;
          (now, w') = new_Date P w;
          maxFutureTime = Num (now + 5 * 60 * 1000);
          oneYear = Num (now - 365 * 24 * 60 * 60 * 1000)
      in (js_le eventTime maxFutureTime \<and> js_ge eventTime oneYear, w'))"

subsection \<open>The response envelope\<close>

datatype payload = Event ShipmentEvent | Events "ShipmentEvent list"

record page_info =
  hasMore :: bool
  nextKey :: "string option"

record api_body =
  success :: bool
  data :: "payload option"
  error :: "string option"
  message :: "string option"
  pagination :: "page_info option"

text \<open>
  A response is its status code and its body before \<open>JSON.stringify\<close>; the headers are
  the same three constants in every response and are left out.
\<close>

record response =
  statusCode :: nat
  body :: api_body

definition createResponse :: "nat \<Rightarrow> api_body \<Rightarrow> response" where
  "createResponse code b = \<lparr>statusCode = code, body = b\<rparr>"

text \<open>\<open>...(message && { message })\<close>: an empty string is left out like an absent one.\<close>

definition if_truthy :: "string \<Rightarrow> string option" where
  "if_truthy s = (if s = [] then None else Some s)"

definition successResponse :: "payload \<Rightarrow> string \<Rightarrow> nat \<Rightarrow> response" where
  "successResponse d msg code =
     createResponse code
       \<lparr>success = True, data = Some d, error = None, message = if_truthy msg,
        pagination = None\<rparr>"

definition paginatedResponse :: "payload \<Rightarrow> bool \<Rightarrow> string option \<Rightarrow> string \<Rightarrow> response" where
  "paginatedResponse d has_more nk msg =
     createResponse 200
       \<lparr>success = True, data = Some d, error = None, message = if_truthy msg,
        pagination = Some \<lparr>hasMore = has_more,
          nextKey = (case nk of None \<Rightarrow> None | Some k \<Rightarrow> if_truthy k)\<rparr>\<rparr>"

definition errorResponse :: "string \<Rightarrow> nat \<Rightarrow> response" where
  "errorResponse err code =
     createResponse code
       \<lparr>success = False, data = None, error = Some err, message = None, pagination = None\<rparr>"

definition validationErrorResponse :: "string list \<Rightarrow> response" where
  "validationErrorResponse errors =
     createResponse 400
       \<lparr>success = False, data = None, error = Some ''Validation failed'',
        message = Some (join_comma errors), pagination = None\<rparr>"

definition parseJSON :: "platform \<Rightarrow> string \<Rightarrow> json" where
  "parseJSON P jsonString = (case JSON_parse P jsonString of None \<Rightarrow> JNull | Some j \<Rightarrow> j)"

subsection \<open>The schemas\<close>

text \<open>
  An issue of \<open>zod\<close> is a path and a message; the handlers print it as
  \<^verbatim>\<open>`${err.path.join('.')}: ${err.message}`\<close>.
\<close>

type_synonym issue = "string list \<times> string"

fun join_dot :: "string list \<Rightarrow> string" where
  "join_dot [] = []"
| "join_dot [x] = x"
| "join_dot (x # y # ys) = x @ ''.'' @ join_dot (y # ys)"

definition format_issue :: "issue \<Rightarrow> string" where
  "format_issue err = join_dot (fst err) @ '': '' @ snd err"

fun zod_type_name :: "json \<Rightarrow> string" where
  "zod_type_name JNull = ''null''"
| "zod_type_name (JBool _) = ''boolean''"
| "zod_type_name (JNum _) = ''number''"
| "zod_type_name (JStr _) = ''string''"
| "zod_type_name (JArr _) = ''array''"
| "zod_type_name (JObj _) = ''object''"

definition invalid_type :: "string \<Rightarrow> string \<Rightarrow> json option \<Rightarrow> issue" where
  "invalid_type field expected v =
     ([field], case v of None \<Rightarrow> ''Required''
               | Some j \<Rightarrow> ''Expected '' @ expected @ '', received '' @ zod_type_name j)"

fun issues_of :: "issue list + 'a \<Rightarrow> issue list" where
  "issues_of (Inl es) = es"
| "issues_of (Inr _) = []"

text \<open>
  \<^verbatim>\<open>timestamp: z.string().datetime({ message: 'Timestamp must be in ISO 8601 format' })\<close>
\<close>

definition parse_timestamp :: "platform \<Rightarrow> json option \<Rightarrow> issue list + string" where
  "parse_timestamp P v =
     (case v of
        Some (JStr s) \<Rightarrow>
          if zod_datetime P s then Inr s
          else Inl [([''timestamp''], ''Timestamp must be in ISO 8601 format'')]
      | _ \<Rightarrow> Inl [invalid_type ''timestamp'' ''string'' v])"

text \<open>
  \<^verbatim>\<open>status: z.enum(VALID_SHIPMENT_STATUSES, { errorMap: () => ({
     message: `Status must be one of: ${VALID_SHIPMENT_STATUSES.join(', ')}` }) })\<close>
  The error map replaces the message of every issue of the field.
\<close>

definition parse_status :: "json option \<Rightarrow> issue list + ShipmentStatus" where
  "parse_status v =
     (let bad = Inl [([''status''], ''Status must be one of: '' @
                       join_comma (map status_string VALID_SHIPMENT_STATUSES))]
      in case v of
           Some (JStr s) \<Rightarrow>
             (case find (\<lambda>st. status_string st = s) VALID_SHIPMENT_STATUSES of
                Some st \<Rightarrow> Inr st | None \<Rightarrow> bad)
         | _ \<Rightarrow> bad)"

text \<open>\<^verbatim>\<open>z.string().max(MAX_LENGTH, `... must be less than ${MAX_LENGTH} characters`).optional()\<close>\<close>

definition parse_optional_string ::
  "string \<Rightarrow> nat \<Rightarrow> string \<Rightarrow> json option \<Rightarrow> issue list + string option" where
  "parse_optional_string field max_length msg v =
     (case v of
        None \<Rightarrow> Inr None
      | Some (JStr s) \<Rightarrow> if utf16_length s > max_length then Inl [([field], msg)] else Inr (Some s)
      | _ \<Rightarrow> Inl [invalid_type field ''string'' v])"

definition CreateEventSchema_safeParse :: "platform \<Rightarrow> json \<Rightarrow> issue list + CreateEventRequest" where
  "CreateEventSchema_safeParse P j =
     (case j of
        JObj ms \<Rightarrow>
          (let r1 = parse_timestamp P (member ms ''timestamp'');
               r2 = parse_status (member ms ''status'');
               r3 = parse_optional_string ''location'' 200
                      ''Location must be less than 200 characters'' (member ms ''location'');
               r4 = parse_optional_string ''details'' 500
                      ''Details must be less than 500 characters'' (member ms ''details'')
           in case (r1, r2, r3, r4) of
                (Inr ts, Inr st, Inr loc, Inr det) \<Rightarrow>
                  Inr \<lparr>req_timestamp = ts, req_status = st, req_location = loc, req_details = det\<rparr>
              | _ \<Rightarrow> Inl (issues_of r1 @ issues_of r2 @ issues_of r3 @ issues_of r4))
      | _ \<Rightarrow> Inl [([], ''Expected object, received '' @ zod_type_name j)])"

text \<open>
  \<^verbatim>\<open>shipmentId: z.string().min(1, ...).max(50, ...).refine(validateShipmentIdFormat, ...)\<close>
  The handlers read only whether the parse succeeded and, if so, the identifier.
\<close>

definition ShipmentEventParamsSchema_safeParse :: "(string \<rightharpoonup> string) option \<Rightarrow> string option" where
  "ShipmentEventParamsSchema_safeParse pathParameters =
     (case pathParameters of
        None \<Rightarrow> None
      | Some ps \<Rightarrow>
          (case ps ''shipmentId'' of
             None \<Rightarrow> None
           | Some s \<Rightarrow>
               if 1 \<le> utf16_length s \<and> utf16_length s \<le> 50 \<and> validateShipmentIdFormat s
               then Some s else None))"

text \<open>
  \<^verbatim>\<open>limit: z.string().optional()
    .transform(val => val ? parseInt(val, 10) : VALIDATION_LIMITS.QUERY_LIMIT.DEFAULT)
    .refine(val => val >= MIN && val <= MAX, { message: `Limit must be between ${MIN} and ${MAX}` }),
  startKey: z.string().optional()\<close>
\<close>

definition limit_transform :: "string option \<Rightarrow> jsnum" where
  "limit_transform val =
     (case val of None \<Rightarrow> Num 50 | Some v \<Rightarrow> if v = [] then Num 50 else parseInt10 v)"

definition GetEventsQuerySchema_safeParse :: "(string \<rightharpoonup> string) \<Rightarrow> issue list + GetEventsQuery" where
  "GetEventsQuerySchema_safeParse qs =
     (let val = limit_transform (qs ''limit'') in
      if js_ge val (Num 1) \<and> js_le val (Num 100)
      then Inr \<lparr>limit = (case val of Num n \<Rightarrow> n | NaN \<Rightarrow> 0), startKey = qs ''startKey''\<rparr>
      else Inl [([''limit''], ''Limit must be between 1 and 100'')])"

subsection \<open>The pagination cursor: JSON text of a key, in base64\<close>

text \<open>The primary key of an item: the partition key \<open>shipmentId\<close> and the sort key \<open>id\<close>.\<close>

record ddb_key =
  key_shipmentId :: string
  key_id :: string

text \<open>
  \<open>JSON.stringify\<close> of a string (\<open>QuoteJSONString\<close>): the quotation mark and the
  reverse solidus are escaped, the control characters have their short escapes or
  \<open>\u00XX\<close> in lower-case hexadecimal, every other byte stands for itself.
\<close>

definition hex_char :: "nat \<Rightarrow> char" where
  "hex_char d = (if d < 10 then char_of (48 + d) else char_of (87 + d))"

definition quote_char :: "char \<Rightarrow> string" where
  "quote_char c =
     (let n = (of_char c :: nat) in
      if n = 34 then [CHR 0x5C, CHR 0x22]
      else if n = 92 then [CHR 0x5C, CHR 0x5C]
      else if n = 8 then [CHR 0x5C, CHR ''b'']
      else if n = 12 then [CHR 0x5C, CHR ''f'']
      else if n = 10 then [CHR 0x5C, CHR ''n'']
      else if n = 13 then [CHR 0x5C, CHR ''r'']
      else if n = 9 then [CHR 0x5C, CHR ''t'']
      else if n < 32 then [CHR 0x5C, CHR ''u'', CHR ''0'', CHR ''0'', hex_char (n div 16), hex_char (n mod 16)]
      else [c])"

definition QuoteJSONString :: "string \<Rightarrow> string" where
  "QuoteJSONString s = CHR 0x22 # concat (map quote_char s) @ [CHR 0x22]"

text \<open>\<open>JSON.stringify\<close> of an object whose members are strings.\<close>

fun stringify_members :: "(string \<times> string) list \<Rightarrow> string" where
  "stringify_members [] = []"
| "stringify_members [m] = QuoteJSONString (fst m) @ '':'' @ QuoteJSONString (snd m)"
| "stringify_members (m # m' # ms) =
     QuoteJSONString (fst m) @ '':'' @ QuoteJSONString (snd m) @ '','' @
     stringify_members (m' # ms)"

definition JSON_stringify_flat :: "(string \<times> string) list \<Rightarrow> string" where
  "JSON_stringify_flat ms = ''{'' @ stringify_members ms @ ''}''"

text \<open>\<open>JSON.stringify(result.LastEvaluatedKey)\<close>: the two key attributes.\<close>

definition object_of_key :: "ddb_key \<Rightarrow> (string \<times> string) list" where
  "object_of_key k = [(''shipmentId'', key_shipmentId k), (''id'', key_id k)]"

definition JSON_stringify_key :: "ddb_key \<Rightarrow> string" where
  "JSON_stringify_key k = JSON_stringify_flat (object_of_key k)"

text \<open>
  \<open>JSON.parse\<close> on the texts that can denote a key: an object whose members are
  strings, with white space between the tokens. \<open>None\<close> stands for a \<open>SyntaxError\<close>; it is
  also the answer for a text with a member that is not a string and for an escaped
  surrogate, which are outside this model.
\<close>

datatype jtoken = LBrace | RBrace | Colon | Comma | TStr string

definition hex_val :: "char \<Rightarrow> nat option" where
  "hex_val c =
     (let n = (of_char c :: nat) in
      if 48 \<le> n \<and> n \<le> 57 then Some (n - 48)
      else if 97 \<le> n \<and> n \<le> 102 then Some (n - 87)
      else if 65 \<le> n \<and> n \<le> 70 then Some (n - 55)
      else None)"

definition hex4 :: "char \<Rightarrow> char \<Rightarrow> char \<Rightarrow> char \<Rightarrow> nat option" where
  "hex4 a b c d =
     (case (hex_val a, hex_val b, hex_val c, hex_val d) of
        (Some w, Some x, Some y, Some z) \<Rightarrow> Some (w * 4096 + x * 256 + y * 16 + z)
      | _ \<Rightarrow> None)"

definition utf8_of_code :: "nat \<Rightarrow> string option" where
  "utf8_of_code n =
     (if n < 128 then Some [char_of n]
      else if n < 2048 then Some [char_of (192 + n div 64), char_of (128 + n mod 64)]
      else if 55296 \<le> n \<and> n < 57344 then None
      else Some [char_of (224 + n div 4096), char_of (128 + (n div 64) mod 64),
                 char_of (128 + n mod 64)])"

definition simple_escape :: "char \<Rightarrow> char option" where
  "simple_escape c =
     (if c = CHR 0x22 then Some (CHR 0x22)
      else if c = CHR 0x5C then Some (CHR 0x5C)
      else if c = CHR ''/'' then Some (CHR ''/'')
      else if c = CHR ''b'' then Some (CHR 0x08)
      else if c = CHR ''f'' then Some (CHR 0x0C)
      else if c = CHR ''n'' then Some (CHR 0x0A)
      else if c = CHR ''r'' then Some (CHR 0x0D)
      else if c = CHR ''t'' then Some (CHR 0x09)
      else None)"

definition is_json_space :: "char \<Rightarrow> bool" where
  "is_json_space c = ((of_char c :: nat) \<in> {9, 10, 13, 32})"

fun lex_json :: "string \<Rightarrow> jtoken list option"
  and lex_string :: "string \<Rightarrow> string \<Rightarrow> jtoken list option"
  and lex_escape :: "string \<Rightarrow> string \<Rightarrow> jtoken list option" where
  "lex_json [] = Some []"
| "lex_json (c # cs) =
     (if is_json_space c then lex_json cs
      else if c = CHR ''{'' then map_option (Cons LBrace) (lex_json cs)
      else if c = CHR ''}'' then map_option (Cons RBrace) (lex_json cs)
      else if c = CHR '':'' then map_option (Cons Colon) (lex_json cs)
      else if c = CHR '','' then map_option (Cons Comma) (lex_json cs)
      else if c = CHR 0x22 then lex_string [] cs
      else None)"
| "lex_string acc [] = None"
| "lex_string acc (c # cs) =
     (if c = CHR 0x22 then map_option (Cons (TStr acc)) (lex_json cs)
      else if c = CHR 0x5C then lex_escape acc cs
      else if (of_char c :: nat) < 32 then None
      else lex_string (acc @ [c]) cs)"
| "lex_escape acc [] = None"
| "lex_escape acc (c # cs) =
     (if c = CHR ''u'' then
        (case cs of
           h1 # h2 # h3 # h4 # rest \<Rightarrow>
             (case hex4 h1 h2 h3 h4 of
                None \<Rightarrow> None
              | Some n \<Rightarrow>
                  (case utf8_of_code n of None \<Rightarrow> None | Some bs \<Rightarrow> lex_string (acc @ bs) rest))
         | _ \<Rightarrow> None)
      else (case simple_escape c of None \<Rightarrow> None | Some x \<Rightarrow> lex_string (acc @ [x]) cs))"

fun members :: "jtoken list \<Rightarrow> (string \<times> string) list option" where
  "members [RBrace] = Some []"
| "members (Comma # TStr k # Colon # TStr v # rest) = map_option (Cons (k, v)) (members rest)"
| "members _ = None"

fun parse_object :: "jtoken list \<Rightarrow> (string \<times> string) list option" where
  "parse_object [LBrace, RBrace] = Some []"
| "parse_object (LBrace # TStr k # Colon # TStr v # rest) =
     map_option (Cons (k, v)) (members rest)"
| "parse_object _ = None"

definition JSON_parse_flat :: "string \<Rightarrow> (string \<times> string) list option" where
  "JSON_parse_flat s = (case lex_json s of None \<Rightarrow> None | Some ts \<Rightarrow> parse_object ts)"

text \<open>
  The object as a key of the table: exactly the two key attributes (a repeated name
  counts at its last occurrence). The store rejects any other object.
\<close>

definition key_of_object :: "(string \<times> string) list \<Rightarrow> ddb_key option" where
  "key_of_object ms =
     (case (map_of (rev ms) ''shipmentId'', map_of (rev ms) ''id'') of
        (Some a, Some b) \<Rightarrow>
          if list_all (\<lambda>m. fst m = ''shipmentId'' \<or> fst m = ''id'') ms
          then Some \<lparr>key_shipmentId = a, key_id = b\<rparr> else None
      | _ \<Rightarrow> None)"

text \<open>
  Base64 as \<open>Buffer\<close> does it. The encoder pads with \<open>=\<close>. The decoder reads up to the
  first \<open>=\<close>, skips every character outside the alphabet, accepts \<open>-\<close> and \<open>_\<close> for
  \<open>+\<close> and \<open>/\<close>, and drops a final group of one character.
\<close>

definition enc6 :: "nat \<Rightarrow> char" where
  "enc6 n =
     (if n < 26 then char_of (65 + n)
      else if n < 52 then char_of (71 + n)
      else if n < 62 then char_of (n - 4)
      else if n = 62 then CHR ''+'' else CHR ''/'')"

fun b64_groups :: "nat list \<Rightarrow> string" where
  "b64_groups [] = []"
| "b64_groups [a] = [enc6 (a div 4), enc6 ((a mod 4) * 16), CHR ''='', CHR ''='']"
| "b64_groups [a, b] =
     [enc6 (a div 4), enc6 ((a mod 4) * 16 + b div 16), enc6 ((b mod 16) * 4), CHR ''='']"
| "b64_groups (a # b # c # rest) =
     [enc6 (a div 4), enc6 ((a mod 4) * 16 + b div 16), enc6 ((b mod 16) * 4 + c div 64),
      enc6 (c mod 64)] @ b64_groups rest"

definition base64_encode :: "string \<Rightarrow> string" where
  "base64_encode s = b64_groups (map of_char s)"

definition dec6 :: "char \<Rightarrow> nat option" where
  "dec6 c =
     (let n = (of_char c :: nat) in
      if 65 \<le> n \<and> n \<le> 90 then Some (n - 65)
      else if 97 \<le> n \<and> n \<le> 122 then Some (n - 71)
      else if 48 \<le> n \<and> n \<le> 57 then Some (n + 4)
      else if n = 43 \<or> n = 45 then Some 62
      else if n = 47 \<or> n = 95 then Some 63
      else None)"

fun sextets :: "string \<Rightarrow> nat list" where
  "sextets [] = []"
| "sextets (c # cs) =
     (if c = CHR ''='' then []
      else (case dec6 c of None \<Rightarrow> sextets cs | Some v \<Rightarrow> v # sextets cs))"

fun b64_bytes :: "nat list \<Rightarrow> nat list" where
  "b64_bytes (w # x # y # z # rest) =
     [w * 4 + x div 16, (x mod 16) * 16 + y div 4, (y mod 4) * 64 + z] @ b64_bytes rest"
| "b64_bytes [w, x, y] = [w * 4 + x div 16, (x mod 16) * 16 + y div 4]"
| "b64_bytes [w, x] = [w * 4 + x div 16]"
| "b64_bytes _ = []"

definition base64_decode :: "string \<Rightarrow> string" where
  "base64_decode s = map char_of (b64_bytes (sextets s))"

text \<open>
  \<^verbatim>\<open>Buffer.from(JSON.stringify(result.LastEvaluatedKey)).toString('base64')\<close> and
  \<^verbatim>\<open>JSON.parse(Buffer.from(startKey, 'base64').toString())\<close>.
\<close>

definition encode_cursor :: "ddb_key \<Rightarrow> string" where
  "encode_cursor k = base64_encode (JSON_stringify_key k)"

definition decode_cursor :: "string \<Rightarrow> (string \<times> string) list option" where
  "decode_cursor cursor = JSON_parse_flat (base64_decode cursor)"

subsection \<open>The table\<close>

text \<open>
  The DynamoDB table has the partition key \<open>shipmentId\<close> and the sort key \<open>id\<close>, both
  strings. What the services rely on:
  \<^item> \<open>PutItem\<close> without a condition stores the item, replacing the item of the same
    primary key if there is one; a key attribute may not be the empty string;
  \<^item> \<open>Query\<close> reads the items of one partition in ascending order of the sort key
    (strings are ordered by their UTF-8 bytes), starting after \<open>ExclusiveStartKey\<close>;
    \<open>Limit\<close> bounds the number of items \<^emph>\<open>read\<close>, the filter expression is applied to
    the items read, and \<open>LastEvaluatedKey\<close> is the key of the last item read when the
    limit stopped the reading, and is absent otherwise.
  The only filter expression of the program compares \<open>status\<close> and \<open>timestamp\<close>.
\<close>

record query_input =
  KeyCondition_shipmentId :: string
  FilterExpression :: "(ShipmentStatus \<times> string) option"
  Limit :: int
  ExclusiveStartKey :: "(string \<times> string) list option"

record query_output =
  Items :: "ShipmentEvent list"
  LastEvaluatedKey :: "ddb_key option"

definition key_of :: "ShipmentEvent \<Rightarrow> ddb_key" where
  "key_of e = \<lparr>key_shipmentId = shipmentId e, key_id = id' e\<rparr>"

definition send_Put :: "world \<Rightarrow> ShipmentEvent \<Rightarrow> thrown + world" where
  "send_Put w item =
     (case outage w of
        Some e \<Rightarrow> Inl e
      | None \<Rightarrow>
          if shipmentId item = [] \<or> id' item = [] then Inl (Error ''ValidationException'')
          else Inr (w\<lparr>table := filter (\<lambda>e. key_of e \<noteq> key_of item) (table w) @ [item]\<rparr>))"

definition partition_after :: "ShipmentEvent list \<Rightarrow> string \<Rightarrow> ddb_key option \<Rightarrow> ShipmentEvent list" where
  "partition_after tbl pk start =
     (let part = sort_key id' (filter (\<lambda>e. shipmentId e = pk) tbl)
      in case start of None \<Rightarrow> part | Some k \<Rightarrow> filter (\<lambda>e. key_id k < id' e) part)"

definition passes_filter :: "(ShipmentStatus \<times> string) option \<Rightarrow> ShipmentEvent \<Rightarrow> bool" where
  "passes_filter flt e =
     (case flt of None \<Rightarrow> True | Some (st, ts) \<Rightarrow> status e = st \<and> timestamp e = ts)"

definition run_query :: "ShipmentEvent list \<Rightarrow> string \<Rightarrow> (ShipmentStatus \<times> string) option \<Rightarrow>
    nat \<Rightarrow> ddb_key option \<Rightarrow> query_output" where
  "run_query tbl pk flt n start =
     (let candidates = partition_after tbl pk start;
          evaluated = take n candidates
      in \<lparr>Items = filter (passes_filter flt) evaluated,
          LastEvaluatedKey =
            (if n \<le> length candidates
             then (case rev evaluated of [] \<Rightarrow> None | e # _ \<Rightarrow> Some (key_of e))
             else None)\<rparr>)"

definition send_Query :: "world \<Rightarrow> query_input \<Rightarrow> thrown + query_output" where
  "send_Query w q =
     (case outage w of
        Some e \<Rightarrow> Inl e
      | None \<Rightarrow>
          if Limit q < 1 then Inl (Error ''ValidationException'')
          else
            (case ExclusiveStartKey q of
               None \<Rightarrow>
                 Inr (run_query (table w) (KeyCondition_shipmentId q) (FilterExpression q)
                        (nat (Limit q)) None)
             | Some obj \<Rightarrow>
                 (case key_of_object obj of
                    None \<Rightarrow> Inl (Error ''ValidationException'')
                  | Some k \<Rightarrow>
                      if key_shipmentId k \<noteq> KeyCondition_shipmentId q
                      then Inl (Error ''ValidationException'')
                      else Inr (run_query (table w) (KeyCondition_shipmentId q)
                                  (FilterExpression q) (nat (Limit q)) (Some k)))))"

subsection \<open>The services\<close>

text \<open>
  \<open>Array.prototype.sort\<close> with a comparator is stable: an element moves behind another
  one only if the comparator says so with a positive number. (With a comparator that
  answers \<open>NaN\<close> the order is up to the engine; this is the insertion order.)
\<close>

fun js_positive :: "jsnum \<Rightarrow> bool" where
  "js_positive (Num n) = (n > 0)"
| "js_positive NaN = False"

fun insert_by :: "('a \<Rightarrow> 'a \<Rightarrow> jsnum) \<Rightarrow> 'a \<Rightarrow> 'a list \<Rightarrow> 'a list" where
  "insert_by cmp x [] = [x]"
| "insert_by cmp x (y # ys) = (if js_positive (cmp x y) then y # insert_by cmp x ys else x # y # ys)"

definition js_sort :: "('a \<Rightarrow> 'a \<Rightarrow> jsnum) \<Rightarrow> 'a list \<Rightarrow> 'a list" where
  "js_sort cmp xs = foldr (insert_by cmp) xs []"

definition getTime :: "platform \<Rightarrow> ShipmentEvent \<Rightarrow> jsnum" where
  "getTime P e = Date_parse P (timestamp e)"

text \<open>
  \<^verbatim>\<open>KeyConditionExpression: 'shipmentId = :shipmentId',
  FilterExpression: '#status = :status AND #timestamp = :timestamp',
  Limit: 1\<close>
  and then \<^verbatim>\<open>exists: (result.Items?.length || 0) > 0, existingEvent: result.Items?.[0]\<close>.
\<close>

definition shippmentEventExist ::
  "world \<Rightarrow> string \<Rightarrow> ShipmentStatus \<Rightarrow> string \<Rightarrow> thrown + bool \<times> ShipmentEvent option" where
  "shippmentEventExist w sid st ts =
     (case send_Query w \<lparr>KeyCondition_shipmentId = sid, FilterExpression = Some (st, ts),
                          Limit = 1, ExclusiveStartKey = None\<rparr> of
        Inl e \<Rightarrow> Inl e
      | Inr result \<Rightarrow>
          Inr (length (Items result) > 0,
               case Items result of [] \<Rightarrow> None | x # _ \<Rightarrow> Some x))"

text \<open>
  \<^verbatim>\<open>const event: ShipmentEvent = {
    id: uuidv4(), shipmentId,
    timestamp: eventData.timestamp || new Date().toISOString(),
    status: eventData.status!, location: eventData.location, details: eventData.details,
    createdAt: new Date().toISOString() };
  await docClient.send(new PutCommand({ TableName, Item: event }));
  return event;\<close>
  Its one caller passes a complete event as \<open>eventData\<close>.
\<close>

definition createEvent ::
  "platform \<Rightarrow> world \<Rightarrow> string \<Rightarrow> ShipmentEvent \<Rightarrow> (thrown + ShipmentEvent) \<times> world" where
  "createEvent P w sid eventData =
     (let (i, w1) = uuidv4 P w;
          (ts, w2) = (if timestamp eventData \<noteq> [] then (timestamp eventData, w1)
                      else (let (t, w') = new_Date P w1 in (Date_toISOString P t, w')));
          (now, w3) = new_Date P w2;
          ev = \<lparr>id' = i, shipmentId = sid, timestamp = ts, status = status eventData,
                location = location eventData, details = details eventData,
                createdAt = Date_toISOString P now\<rparr>
      in case send_Put w3 ev of
           Inl e \<Rightarrow> (Inl e, w3)
         | Inr w4 \<Rightarrow> (Inr ev, w4))"

record history =
  events :: "ShipmentEvent list"
  result_hasMore :: bool
  result_nextKey :: "string option"

text \<open>
  \<^verbatim>\<open>new QueryCommand({ ..., Limit: limit,
    ...(startKey && { ExclusiveStartKey: JSON.parse(Buffer.from(startKey, 'base64').toString()) }) })\<close>
\<close>

definition history_command :: "string \<Rightarrow> int \<Rightarrow> string option \<Rightarrow> thrown + query_input" where
  "history_command sid lim sk =
     (case sk of
        None \<Rightarrow> Inr \<lparr>KeyCondition_shipmentId = sid, FilterExpression = None, Limit = lim,
                      ExclusiveStartKey = None\<rparr>
      | Some cursor \<Rightarrow>
          if cursor = [] then
            Inr \<lparr>KeyCondition_shipmentId = sid, FilterExpression = None, Limit = lim,
                 ExclusiveStartKey = None\<rparr>
          else
            (case decode_cursor cursor of
               None \<Rightarrow> Inl (Error ''SyntaxError'')
             | Some obj \<Rightarrow>
                 Inr \<lparr>KeyCondition_shipmentId = sid, FilterExpression = None, Limit = lim,
                      ExclusiveStartKey = Some obj\<rparr>))"

definition getEventHistory ::
  "platform \<Rightarrow> world \<Rightarrow> string \<Rightarrow> int \<Rightarrow> string option \<Rightarrow> thrown + history" where
  "getEventHistory P w sid lim sk =
     (case history_command sid lim sk of
        Inl e \<Rightarrow> Inl e
      | Inr command \<Rightarrow>
          (case send_Query w command of
             Inl e \<Rightarrow> Inl e
           | Inr result \<Rightarrow>
               Inr \<lparr>events = js_sort (\<lambda>a b. js_minus (getTime P a) (getTime P b)) (Items result),
                    result_hasMore = (LastEvaluatedKey result \<noteq> None),
                    result_nextKey = map_option encode_cursor (LastEvaluatedKey result)\<rparr>))"

text \<open>
  \<^verbatim>\<open>new QueryCommand({ TableName, KeyConditionExpression: 'shipmentId = :shipmentId',
    ExpressionAttributeValues: { ':shipmentId': shipmentId }, Limit: 1 })\<close>,
  then the items are sorted by descending time and the first one is returned, or \<open>null\<close>.
\<close>

definition getLatestEvent :: "platform \<Rightarrow> world \<Rightarrow> string \<Rightarrow> thrown + ShipmentEvent option" where
  "getLatestEvent P w sid =
     (case send_Query w \<lparr>KeyCondition_shipmentId = sid, FilterExpression = None,
                          Limit = 1, ExclusiveStartKey = None\<rparr> of
        Inl e \<Rightarrow> Inl e
      | Inr result \<Rightarrow>
          (case js_sort (\<lambda>a b. js_minus (getTime P b) (getTime P a)) (Items result) of
             [] \<Rightarrow> Inr None
           | x # _ \<Rightarrow> Inr (Some x)))"

subsection \<open>The handlers\<close>

text \<open>The parts of the API Gateway event that the handlers read.\<close>

record api_event =
  pathParameters :: "(string \<rightharpoonup> string) option"
  event_body :: "string option"
  queryStringParameters :: "(string \<rightharpoonup> string) option"

text \<open>The \<open>catch\<close> blocks: an \<open>Error\<close> is recognised by its name.\<close>

definition recordEvent_catch :: "thrown \<Rightarrow> response" where
  "recordEvent_catch e =
     (if e = Error ''ConditionalCheckFailedException''
        then errorResponse ''Event with this ID already exists'' 409
      else if e = Error ''ValidationException''
        then errorResponse ''Invalid data format'' 400
      else errorResponse ''Internal server error occurred while creating event'' 500)"

definition getLatestEvent_catch :: "thrown \<Rightarrow> response" where
  "getLatestEvent_catch e =
     (if e = Error ''ResourceNotFoundException''
        then errorResponse ''Events table not found'' 503
      else if e = Error ''ValidationException''
        then errorResponse ''Invalid shipment ID format'' 400
      else errorResponse ''Internal server error occurred while retrieving latest event'' 500)"


text \<open>
  The handler of \<open>POST /shipments/{shipmentId}/events\<close>, in three parts:
  \<open>recordEvent_handler\<close> is the handler up to the schema check of the body,
  \<open>record_validated\<close> the timestamp window and the duplicate check, and \<open>store_event\<close>
  the rest. After the checks the handler builds
  \<^verbatim>\<open>const shipmentEvent: ShipmentEvent = {
    id: uuidv4(), shipmentId, timestamp, status, location,
    details: details || SHIPMENT_STATUS_DESCRIPTIONS[status],
    createdAt: new Date().toISOString() };
  await createEvent(shipmentId, shipmentEvent);
  return successResponse(shipmentEvent, 'Event created successfully', StatusCodes.CREATED);\<close>
\<close>

definition details_or_default :: "string option \<Rightarrow> ShipmentStatus \<Rightarrow> string" where
  "details_or_default det st =
     (case det of
        None \<Rightarrow> SHIPMENT_STATUS_DESCRIPTIONS st
      | Some d \<Rightarrow> if d = [] then SHIPMENT_STATUS_DESCRIPTIONS st else d)"

definition store_event ::
  "platform \<Rightarrow> world \<Rightarrow> string \<Rightarrow> CreateEventRequest \<Rightarrow> response \<times> world" where
  "store_event P w sid req =
     (let (i, w1) = uuidv4 P w;
          (now, w2) = new_Date P w1;
          shipmentEvent =
            \<lparr>id' = i, shipmentId = sid, timestamp = req_timestamp req, status = req_status req,
             location = req_location req,
             details = Some (details_or_default (req_details req) (req_status req)),
             createdAt = Date_toISOString P now\<rparr>
      in case createEvent P w2 sid shipmentEvent of
           (Inl e, w3) \<Rightarrow> (recordEvent_catch e, w3)
         | (Inr _, w3) \<Rightarrow>
             (successResponse (Event shipmentEvent) ''Event created successfully'' 201, w3))"

definition record_validated ::
  "platform \<Rightarrow> world \<Rightarrow> string \<Rightarrow> CreateEventRequest \<Rightarrow> response \<times> world" where
  "record_validated P w sid req =
     (let (ok, w1) = validateEventTimestamp P w (req_timestamp req) in
      if \<not> ok then (errorResponse ''Event timestamp cannot be in the future'' 400, w1)
      else
        (case shippmentEventExist w1 sid (req_status req) (req_timestamp req) of
           Inl e \<Rightarrow> (recordEvent_catch e, w1)
         | Inr checkforDuplicateEvent \<Rightarrow>
             if fst checkforDuplicateEvent then
               (errorResponse
                  ''Event with this shipment ID, status and timestamp already exists'' 409, w1)
             else store_event P w1 sid req))"

definition recordEvent_handler :: "platform \<Rightarrow> world \<Rightarrow> api_event \<Rightarrow> response \<times> world" where
  "recordEvent_handler P w ev =
     (case ShipmentEventParamsSchema_safeParse (pathParameters ev) of
        None \<Rightarrow> (validationErrorResponse [''Invalid shipment ID''], w)
      | Some sid \<Rightarrow>
          (case event_body ev of
             None \<Rightarrow> (errorResponse ''Request body is required'' 400, w)
           | Some b \<Rightarrow>
               if b = [] then (errorResponse ''Request body is required'' 400, w)
               else
                 (let requestBody = parseJSON P b in
                  if \<not> truthy requestBody
                  then (errorResponse ''Invalid JSON in request body'' 400, w)
                  else
                    (case CreateEventSchema_safeParse P requestBody of
                       Inl errs \<Rightarrow> (validationErrorResponse (map format_issue errs), w)
                     | Inr req \<Rightarrow> record_validated P w sid req))))"

text \<open>The handler of \<open>GET /shipments/{shipmentId}/events/latest\<close>.\<close>

definition getLatestEvent_handler :: "platform \<Rightarrow> world \<Rightarrow> api_event \<Rightarrow> response" where
  "getLatestEvent_handler P w ev =
     (case ShipmentEventParamsSchema_safeParse (pathParameters ev) of
        None \<Rightarrow> validationErrorResponse [''Invalid shipment ID'']
      | Some sid \<Rightarrow>
          (case getLatestEvent P w sid of
             Inl e \<Rightarrow> getLatestEvent_catch e
           | Inr None \<Rightarrow> errorResponse (''No events found for shipment '' @ sid) 404
           | Inr (Some latestEvent) \<Rightarrow>
               successResponse (Event latestEvent) ''Latest event retrieved successfully'' 200))"




subsection \<open>Sample data\<close>

text \<open>
  The three events of the service's test suite (\<open>mockEvents\<close>), a platform that agrees
  with Node.js on the arguments that the examples reach, and requests to the handlers.
  The sample clock stands at \<open>2025-05-26T10:00:00.000Z\<close>, the fixed date of the tests;
  the sample \<open>JSON.parse\<close> reads objects whose members are strings.
\<close>

definition mockEvents :: "ShipmentEvent list" where
  "mockEvents =
     [\<lparr>id' = ''event-1'', shipmentId = ''SHIP-123456'', timestamp = ''2025-05-26T08:00:00.000Z'',
       status = CREATED, location = Some ''Stockholm, Sweden'',
       details = Some ''Shipment created'', createdAt = ''2025-05-26T08:00:00.000Z''\<rparr>,
      \<lparr>id' = ''event-2'', shipmentId = ''SHIP-123456'', timestamp = ''2025-05-26T10:00:00.000Z'',
       status = PICKED_UP, location = Some ''Stockholm, Sweden'',
       details = Some ''Package picked up'', createdAt = ''2025-05-26T10:00:00.000Z''\<rparr>,
      \<lparr>id' = ''event-3'', shipmentId = ''SHIP-123456'', timestamp = ''2025-05-26T12:00:00.000Z'',
       status = DELIVERED, location = Some ''Stockholm, Sweden'',
       details = Some ''Package delivered'', createdAt = ''2025-05-26T12:00:00.000Z''\<rparr>]"

definition sample_Date_parse :: "string \<Rightarrow> jsnum" where
  "sample_Date_parse s =
     (if s = ''2025-05-26T08:00:00.000Z'' then Num 1748246400000
      else if s = ''2025-05-26T10:00:00.000Z'' then Num 1748253600000
      else if s = ''2025-05-26T12:00:00.000Z'' then Num 1748260800000
      else if s = ''2025-05-26T10:05:00.000Z'' then Num 1748253900000
      else if s = ''2025-05-26T10:05:01.000Z'' then Num 1748253901000
      else if s = ''2024-05-26T10:00:00.000Z'' then Num 1716717600000
      else if s = ''2024-01-01T00:00:00.000Z'' then Num 1704067200000
      else if s = ''2030-01-01T00:00:00.000Z'' then Num 1893456000000
      else NaN)"

definition sample_JSON_parse :: "string \<Rightarrow> json option" where
  "sample_JSON_parse s =
     map_option (\<lambda>ms. JObj (map (\<lambda>m. (fst m, JStr (snd m))) ms)) (JSON_parse_flat s)"

definition node_sample :: platform where
  "node_sample =
     \<lparr>Date_parse = sample_Date_parse,
      Date_toISOString = (\<lambda>t. if t = 1748253600000 then ''2025-05-26T10:00:00.000Z'' else []),
      JSON_parse = sample_JSON_parse,
      zod_datetime = (\<lambda>s. sample_Date_parse s \<noteq> NaN),
      uuidv4_nth = (\<lambda>n. ''00000000-0000-4000-8000-00000000000'' @ [digit_char (n mod 10)]),
      clock_nth = (\<lambda>n. 1748253600000)\<rparr>"

definition world_of :: "ShipmentEvent list \<Rightarrow> world" where
  "world_of tbl = \<lparr>table = tbl, clock_reads = 0, uuids_drawn = 0, outage = None\<rparr>"

definition post_event :: "string \<Rightarrow> (string \<times> string) list \<Rightarrow> api_event" where
  "post_event sid ms =
     \<lparr>pathParameters = Some [''shipmentId'' \<mapsto> sid],
      event_body = Some (JSON_stringify_flat ms),
      queryStringParameters = None\<rparr>"

text \<open>
  A write for shipment \<open>SHIP-123456\<close> with the given status and timestamp, a
  location, and the given \<open>details\<close> or none; and the state after a sequence of writes.
\<close>

definition sample_write :: "string \<Rightarrow> string \<Rightarrow> string option \<Rightarrow> api_event" where
  "sample_write st ts det =
     post_event ''SHIP-123456''
       ([(''timestamp'', ts), (''status'', st), (''location'', ''Stockholm, Sweden'')] @
        (case det of None \<Rightarrow> [] | Some d \<Rightarrow> [(''details'', d)]))"

definition after_writes :: "api_event list \<Rightarrow> world \<Rightarrow> world" where
  "after_writes evs w = foldl (\<lambda>w' ev. snd (recordEvent_handler node_sample w' ev)) w evs"

definition get_event :: "string \<Rightarrow> (string \<rightharpoonup> string) option \<Rightarrow> api_event" where
  "get_event sid qs =
     \<lparr>pathParameters = Some [''shipmentId'' \<mapsto> sid], event_body = None,
      queryStringParameters = qs\<rparr>"

section \<open>Properties\<close>

subsection \<open>Characters\<close>

lemma char_eq_nat: "c = d \<longleftrightarrow> (of_char c :: nat) = of_char d"
  by simp

lemma is_upper_nat: "is_upper c \<longleftrightarrow> 65 \<le> (of_char c :: nat) \<and> (of_char c :: nat) \<le> 90"
  by (simp add: is_upper_def less_eq_char_def)

lemma is_lower_nat: "is_lower c \<longleftrightarrow> 97 \<le> (of_char c :: nat) \<and> (of_char c :: nat) \<le> 122"
  by (simp add: is_lower_def less_eq_char_def)

lemma is_digit_nat: "is_digit c \<longleftrightarrow> 48 \<le> (of_char c :: nat) \<and> (of_char c :: nat) \<le> 57"
  by (simp add: is_digit_def less_eq_char_def)

subsection \<open>The shipment identifier patterns\<close>

lemma rx_single: "rx_match [Rep c lo hi] s \<longleftrightarrow> lo \<le> length s \<and> length s \<le> hi \<and> list_all c s"
  by (auto simp: list_ex_iff)

lemma rx_fixed:
  "rx_match (Rep c n n # items) s \<longleftrightarrow>
     n \<le> length s \<and> list_all c (take n s) \<and> rx_match items (drop n s)"
  by (auto simp: list_ex_iff)

lemma rx_lit: "rx_match (lit c # items) s \<longleftrightarrow> (\<exists>t. s = c # t \<and> rx_match items t)"
  unfolding lit_def rx_fixed by (cases s) auto

lemma canonicalize_upper:
  assumes "is_lower c"
  shows "is_upper (canonicalize c)"
proof -
  define n where "n = (of_char c :: nat)"
  from assms have n: "97 \<le> n" "n \<le> 122" by (simp_all add: is_lower_nat n_def)
  then have "(n - 32) mod 256 = n - 32" by simp
  moreover from n have "65 \<le> n - 32" "n - 32 \<le> 90" by arith+
  ultimately show ?thesis using assms
    by (simp add: canonicalize_def is_upper_nat n_def [symmetric])
qed

lemma generic_class:
  "(is_upper (canonicalize c) \<or> is_digit (canonicalize c) \<or> canonicalize c = CHR ''-'' \<or>
    canonicalize c = CHR ''_'') \<longleftrightarrow>
   (is_upper c \<or> is_lower c \<or> is_digit c \<or> c = CHR ''-'' \<or> c = CHR ''_'')"
proof (cases "is_lower c")
  case True
  then show ?thesis using canonicalize_upper by simp
next
  case False
  then show ?thesis by (simp add: canonicalize_def)
qed

lemma pattern_upu:
  "rx_match [Rep is_upper 2 2, Rep is_digit 9 9, Rep is_upper 2 2] s \<longleftrightarrow> spec_upu_shape s"
  unfolding rx_fixed rx_single spec_upu_shape_def
  by auto

lemma pattern_prefixed:
  "rx_match [lit CHR ''S'', lit CHR ''H'', lit CHR ''I'', lit CHR ''P'', lit CHR ''-'',
             Rep is_digit 6 12] s \<longleftrightarrow> spec_prefixed_shape s"
proof
  assume "rx_match [lit CHR ''S'', lit CHR ''H'', lit CHR ''I'', lit CHR ''P'', lit CHR ''-'',
             Rep is_digit 6 12] s"
  then obtain t where "s = ''SHIP-'' @ t" "6 \<le> length t" "length t \<le> 12" "list_all is_digit t"
    unfolding rx_lit rx_single by auto
  then show "spec_prefixed_shape s" by (simp add: spec_prefixed_shape_def)
next
  assume a: "spec_prefixed_shape s"
  then have "s = take 5 s @ drop 5 s" by simp
  with a have "s = ''SHIP-'' @ drop 5 s" by (simp add: spec_prefixed_shape_def)
  with a show "rx_match [lit CHR ''S'', lit CHR ''H'', lit CHR ''I'', lit CHR ''P'', lit CHR ''-'',
             Rep is_digit 6 12] s"
    unfolding rx_lit rx_single spec_prefixed_shape_def by auto
qed

lemma pattern_generic:
  "rx_match [ignore_case
          (Rep (\<lambda>c. is_upper c \<or> is_digit c \<or> c = CHR ''-'' \<or> c = CHR ''_'') 5 50)] s
   \<longleftrightarrow> spec_generic_shape s"
  unfolding ignore_case_def rx_item.case rx_single spec_generic_shape_def generic_class ..

text \<open>
  Claim C6. For every string, the format predicate on shipment identifiers is true
  exactly when the string has one of the three shapes of the specification (two
  upper-case letters, nine digits, two upper-case letters; \<open>SHIP-\<close> and six to twelve
  digits; five to fifty letters, digits, hyphens or underscores in either case), and it
  is false for the empty string.
\<close>

theorem validateShipmentIdFormat_shapes:
  "(validateShipmentIdFormat s \<longleftrightarrow>
      spec_upu_shape s \<or> spec_prefixed_shape s \<or> spec_generic_shape s) \<and>
   \<not> validateShipmentIdFormat []"
proof -
  have eq: "validateShipmentIdFormat t \<longleftrightarrow>
      spec_upu_shape t \<or> spec_prefixed_shape t \<or> spec_generic_shape t" for t
    unfolding validateShipmentIdFormat_def SHIPMENT_ID_PATTERNS_def
    by (simp only: list_ex_Cons_iff list_ex_Nil_iff pattern_upu pattern_prefixed pattern_generic)
      simp
  have "\<not> validateShipmentIdFormat []"
    unfolding eq by (simp add: spec_upu_shape_def spec_prefixed_shape_def spec_generic_shape_def)
  with eq show ?thesis by blast
qed

theorem validateShipmentIdFormat_shapes_witness:
  "validateShipmentIdFormat ''SE123456789PN'' \<and> validateShipmentIdFormat ''SHIP-123456'' \<and>
   validateShipmentIdFormat ''pkg_456-789'' \<and> \<not> validateShipmentIdFormat ''PKG#1''"
  using validateShipmentIdFormat_shapes [of "''SE123456789PN''"]
    validateShipmentIdFormat_shapes [of "''SHIP-123456''"]
    validateShipmentIdFormat_shapes [of "''pkg_456-789''"]
    validateShipmentIdFormat_shapes [of "''PKG#1''"]
  by (simp add: spec_upu_shape_def spec_prefixed_shape_def spec_generic_shape_def
      is_upper_def is_lower_def is_digit_def)

subsection \<open>The timestamp window\<close>

text \<open>
  Claim C5. For every string, \<open>validateEventTimestamp\<close> answers false when the string does
  not parse as a date, and otherwise answers true exactly when the parsed instant lies
  between 365 days before and 5 minutes after the clock reading, both ends included:
  true at exactly five minutes ahead and at exactly 365 days back, false one second
  beyond the five minutes.
\<close>

theorem validateEventTimestamp_window:
  "(Date_parse P ts = NaN \<longrightarrow> \<not> fst (validateEventTimestamp P w ts)) \<and>
   (\<forall>t. Date_parse P ts = Num t \<longrightarrow>
      (fst (validateEventTimestamp P w ts) \<longleftrightarrow>
         clock_nth P (clock_reads w) - 365 * 24 * 60 * 60 * 1000 \<le> t \<and>
         t \<le> clock_nth P (clock_reads w) + 5 * 60 * 1000)) \<and>
   (Date_parse P ts = Num (clock_nth P (clock_reads w) + 5 * 60 * 1000) \<longrightarrow>
      fst (validateEventTimestamp P w ts)) \<and>
   (Date_parse P ts = Num (clock_nth P (clock_reads w) - 365 * 24 * 60 * 60 * 1000) \<longrightarrow>
      fst (validateEventTimestamp P w ts)) \<and>
   (Date_parse P ts = Num (clock_nth P (clock_reads w) + 5 * 60 * 1000 + 1000) \<longrightarrow>
      \<not> fst (validateEventTimestamp P w ts))"
  by (auto simp: validateEventTimestamp_def new_Date_def Let_def)

theorem validateEventTimestamp_window_witness:
  "\<not> fst (validateEventTimestamp node_sample (world_of []) ''invalid-date'') \<and>
   fst (validateEventTimestamp node_sample (world_of []) ''2025-05-26T08:00:00.000Z'') \<and>
   fst (validateEventTimestamp node_sample (world_of []) ''2025-05-26T10:05:00.000Z'') \<and>
   fst (validateEventTimestamp node_sample (world_of []) ''2024-05-26T10:00:00.000Z'') \<and>
   \<not> fst (validateEventTimestamp node_sample (world_of []) ''2025-05-26T10:05:01.000Z'')"
  using validateEventTimestamp_window [of node_sample "''invalid-date''" "world_of []"]
    validateEventTimestamp_window [of node_sample "''2025-05-26T08:00:00.000Z''" "world_of []"]
    validateEventTimestamp_window [of node_sample "''2025-05-26T10:05:00.000Z''" "world_of []"]
    validateEventTimestamp_window [of node_sample "''2024-05-26T10:00:00.000Z''" "world_of []"]
    validateEventTimestamp_window [of node_sample "''2025-05-26T10:05:01.000Z''" "world_of []"]
  by (simp add: node_sample_def sample_Date_parse_def world_of_def)

subsection \<open>Base64\<close>

lemma of_char_enc6:
  "n < 64 \<Longrightarrow> (of_char (enc6 n) :: nat) =
     (if n < 26 then 65 + n else if n < 52 then 71 + n else if n < 62 then n - 4
      else if n = 62 then 43 else 47)"
  unfolding enc6_def by simp

lemma dec6_enc6: "n < 64 \<Longrightarrow> dec6 (enc6 n) = Some n"
  unfolding dec6_def Let_def by (simp add: of_char_enc6; arith)

lemma enc6_not_pad: "n < 64 \<Longrightarrow> enc6 n \<noteq> CHR ''=''"
  unfolding char_eq_nat by (simp add: of_char_enc6; arith)

lemma sextets_enc6: "n < 64 \<Longrightarrow> sextets (enc6 n # cs) = n # sextets cs"
  by (simp add: dec6_enc6 enc6_not_pad)

lemma sextets_pad: "sextets (CHR ''='' # cs) = []"
  by simp

lemma div_bound: "(a::nat) < 256 \<Longrightarrow> a div 4 < 64" "(b::nat) < 256 \<Longrightarrow> b div 16 < 16"
  "(c::nat) < 256 \<Longrightarrow> c div 64 < 4"
  by simp_all

lemma sextet_lt:
  "(x::nat) < 4 \<Longrightarrow> y < 16 \<Longrightarrow> x * 16 + y < 64"
  "(u::nat) < 16 \<Longrightarrow> v < 4 \<Longrightarrow> u * 4 + v < 64"
  by simp_all

lemma split_16: "(y::nat) < 16 \<Longrightarrow> (x * 16 + y) div 16 = x" "(y::nat) < 16 \<Longrightarrow> (x * 16 + y) mod 16 = y"
  by simp_all

lemma split_4: "(y::nat) < 4 \<Longrightarrow> (x * 4 + y) div 4 = x" "(y::nat) < 4 \<Longrightarrow> (x * 4 + y) mod 4 = y"
  by simp_all


lemma b64_roundtrip_bytes:
  "list_all (\<lambda>b. b < 256) bs \<Longrightarrow> b64_bytes (sextets (b64_groups bs)) = bs"
proof (induction bs rule: b64_groups.induct)
  case 1
  then show ?case by simp
next
  case (2 a)
  then have a: "a < 256" by simp
  have lt: "a div 4 < 64" "(a mod 4) * 16 < 64" using div_bound(1) [OF a] by simp_all
  have s: "sextets (b64_groups [a]) = [a div 4, (a mod 4) * 16]"
    by (simp only: b64_groups.simps sextets_enc6 [OF lt(1)] sextets_enc6 [OF lt(2)] sextets_pad)
  show ?case unfolding s by simp
next
  case (3 a b)
  then have a: "a < 256" "b < 256" by simp_all
  have lt: "a div 4 < 64" "(a mod 4) * 16 + b div 16 < 64" "(b mod 16) * 4 < 64"
    using div_bound(1) [OF a(1)] sextet_lt(1) [OF _ div_bound(2) [OF a(2)], of "a mod 4"]
    by simp_all
  have s: "sextets (b64_groups [a, b]) = [a div 4, (a mod 4) * 16 + b div 16, (b mod 16) * 4]"
    by (simp only: b64_groups.simps sextets_enc6 [OF lt(1)] sextets_enc6 [OF lt(2)]
        sextets_enc6 [OF lt(3)] sextets_pad)
  show ?case unfolding s
    by (simp add: split_16 [OF div_bound(2) [OF a(2)]] mod_less [OF div_bound(2) [OF a(2)]])
next
  case (4 a b c rest)
  then have a: "a < 256" "b < 256" "c < 256" and r: "list_all (\<lambda>b. b < 256) rest" by simp_all
  have lt: "a div 4 < 64" "(a mod 4) * 16 + b div 16 < 64" "(b mod 16) * 4 + c div 64 < 64"
    "c mod 64 < 64"
    using div_bound(1) [OF a(1)] sextet_lt(1) [OF _ div_bound(2) [OF a(2)], of "a mod 4"]
      sextet_lt(2) [OF _ div_bound(3) [OF a(3)], of "b mod 16"]
    by simp_all
  have s: "sextets (b64_groups (a # b # c # rest)) =
      a div 4 # ((a mod 4) * 16 + b div 16) # ((b mod 16) * 4 + c div 64) # (c mod 64) #
      sextets (b64_groups rest)"
    by (simp only: b64_groups.simps append.simps sextets_enc6 [OF lt(1)] sextets_enc6 [OF lt(2)]
        sextets_enc6 [OF lt(3)] sextets_enc6 [OF lt(4)])
  show ?case unfolding s using "4.IH" [OF r]
    by (simp add: split_16 [OF div_bound(2) [OF a(2)]] split_4 [OF div_bound(3) [OF a(3)]]
        mod_less [OF div_bound(2) [OF a(2)]] mod_less [OF div_bound(3) [OF a(3)]])
qed

lemma base64_roundtrip: "base64_decode (base64_encode s) = s"
proof -
  have "list_all (\<lambda>b. b < 256) (map of_char s :: nat list)"
    by (simp add: list_all_iff)
  then show ?thesis
    unfolding base64_decode_def base64_encode_def
    by (simp add: b64_roundtrip_bytes map_idI)
qed

subsection \<open>JSON text of an object of strings\<close>

lemma hex_val_hex_char: "d < 16 \<Longrightarrow> hex_val (hex_char d) = Some d"
  unfolding hex_val_def hex_char_def Let_def by (simp; arith)

lemma hex_val_zero: "hex_val CHR ''0'' = Some 0"
  by (simp add: hex_val_def)

lemma lex_esc_control:
  assumes "(of_char c :: nat) < 32"
  shows "lex_escape acc (CHR ''u'' # CHR ''0'' # CHR ''0'' # hex_char (of_char c div 16) #
            hex_char (of_char c mod 16) # rest) = lex_string (acc @ [c]) rest"
proof -
  define n where "n = (of_char c :: nat)"
  have n: "n < 32" using assms by (simp add: n_def)
  then have d: "n div 16 < 16" "n mod 16 < 16" by simp_all
  have "hex4 CHR ''0'' CHR ''0'' (hex_char (n div 16)) (hex_char (n mod 16)) = Some n"
    unfolding hex4_def by (simp add: hex_val_zero hex_val_hex_char [OF d(1)] hex_val_hex_char [OF d(2)])
  moreover have "utf8_of_code n = Some [c]" using n by (simp add: utf8_of_code_def n_def)
  ultimately show ?thesis by (simp add: n_def)
qed

lemma lex_str_quote_char: "lex_string acc (quote_char c @ rest) = lex_string (acc @ [c]) rest"
proof -
  define n where "n = (of_char c :: nat)"
  have c: "c = char_of n" by (simp add: n_def)
  consider "n = 34" | "n = 92" | "n = 8" | "n = 12" | "n = 10" | "n = 13" | "n = 9"
    | "n < 32" "n \<noteq> 8" "n \<noteq> 12" "n \<noteq> 10" "n \<noteq> 13" "n \<noteq> 9"
    | "32 \<le> n" "n \<noteq> 34" "n \<noteq> 92"
    by linarith
  then show ?thesis
  proof cases
    case 1
    then have "c = CHR 0x22" unfolding char_eq_nat by (simp add: n_def)
    then show ?thesis by (simp add: quote_char_def simple_escape_def)
  next
    case 2
    then have "c = CHR 0x5C" unfolding char_eq_nat by (simp add: n_def)
    then show ?thesis by (simp add: quote_char_def simple_escape_def)
  next
    case 3
    then have "c = CHR 0x08" unfolding char_eq_nat by (simp add: n_def)
    then show ?thesis by (simp add: quote_char_def simple_escape_def)
  next
    case 4
    then have "c = CHR 0x0C" unfolding char_eq_nat by (simp add: n_def)
    then show ?thesis by (simp add: quote_char_def simple_escape_def)
  next
    case 5
    then have "c = CHR 0x0A" unfolding char_eq_nat by (simp add: n_def)
    then show ?thesis by (simp add: quote_char_def simple_escape_def)
  next
    case 6
    then have "c = CHR 0x0D" unfolding char_eq_nat by (simp add: n_def)
    then show ?thesis by (simp add: quote_char_def simple_escape_def)
  next
    case 7
    then have "c = CHR 0x09" unfolding char_eq_nat by (simp add: n_def)
    then show ?thesis by (simp add: quote_char_def simple_escape_def)
  next
    case 8
    then have q: "quote_char c = [CHR 0x5C, CHR ''u'', CHR ''0'', CHR ''0'',
        hex_char (of_char c div 16), hex_char (of_char c mod 16)]"
      by (simp add: quote_char_def n_def [symmetric])
    from 8 have "(of_char c :: nat) < 32" by (simp add: n_def)
    from lex_esc_control [OF this] show ?thesis unfolding q by simp
  next
    case 9
    then have "c \<noteq> CHR 0x22" "c \<noteq> CHR 0x5C" unfolding char_eq_nat by (simp_all add: n_def)
    moreover from 9 have "quote_char c = [c]" by (simp add: quote_char_def n_def [symmetric])
    moreover from 9 have "\<not> (of_char c :: nat) < 32" by (simp add: n_def)
    ultimately show ?thesis by simp
  qed
qed

lemma lex_str_body:
  "lex_string acc (concat (map quote_char s) @ CHR 0x22 # rest) =
     map_option (Cons (TStr (acc @ s))) (lex_json rest)"
proof (induction s arbitrary: acc)
  case Nil
  then show ?case by simp
next
  case (Cons c s)
  have "lex_string acc (concat (map quote_char (c # s)) @ CHR 0x22 # rest) =
        lex_string (acc @ [c]) (concat (map quote_char s) @ CHR 0x22 # rest)"
    using lex_str_quote_char [of acc c] by simp
  then show ?case by (simp add: Cons.IH)
qed

lemma lex_quoted:
  "lex_json (QuoteJSONString s @ rest) = map_option (Cons (TStr s)) (lex_json rest)"
  unfolding QuoteJSONString_def using lex_str_body [of "[]" s rest]
  by (simp add: is_json_space_def)


lemma lex_punct:
  "lex_json (CHR ''{'' # cs) = map_option (Cons LBrace) (lex_json cs)"
  "lex_json (CHR ''}'' # cs) = map_option (Cons RBrace) (lex_json cs)"
  "lex_json (CHR '':'' # cs) = map_option (Cons Colon) (lex_json cs)"
  "lex_json (CHR '','' # cs) = map_option (Cons Comma) (lex_json cs)"
  by (simp_all add: is_json_space_def)

lemma lex_member:
  "lex_json (QuoteJSONString k @ CHR '':'' # QuoteJSONString v @ rest) =
     map_option (\<lambda>ts. TStr k # Colon # TStr v # ts) (lex_json rest)"
proof -
  have "lex_json (QuoteJSONString k @ CHR '':'' # QuoteJSONString v @ rest) =
        map_option (Cons (TStr k)) (lex_json (CHR '':'' # QuoteJSONString v @ rest))"
    by (rule lex_quoted)
  also have "lex_json (CHR '':'' # QuoteJSONString v @ rest) =
        map_option (Cons Colon) (map_option (Cons (TStr v)) (lex_json rest))"
    by (simp only: lex_punct lex_quoted)
  finally show ?thesis by (simp add: option.map_comp comp_def)
qed

lemma lex_members:
  "\<exists>ts. lex_json (stringify_members (m # ms) @ ''}'') =
           Some (TStr (fst m) # Colon # TStr (snd m) # ts) \<and> members ts = Some ms"
proof (induction ms arbitrary: m)
  case Nil
  have "lex_json (stringify_members [m] @ ''}'') = Some [TStr (fst m), Colon, TStr (snd m), RBrace]"
    using lex_member [of "fst m" "snd m" "''}''"] by (simp add: is_json_space_def)
  then show ?case by simp
next
  case (Cons m' ms)
  from Cons.IH [of m'] obtain ts where
    ts: "lex_json (stringify_members (m' # ms) @ ''}'') =
           Some (TStr (fst m') # Colon # TStr (snd m') # ts)" "members ts = Some ms"
    by blast
  have "lex_json (stringify_members (m # m' # ms) @ ''}'') =
        Some (TStr (fst m) # Colon # TStr (snd m) # Comma # TStr (fst m') # Colon # TStr (snd m') # ts)"
    using lex_member [of "fst m" "snd m" "CHR '','' # stringify_members (m' # ms) @ ''}''"] ts(1)
    by (simp add: is_json_space_def)
  moreover have "members (Comma # TStr (fst m') # Colon # TStr (snd m') # ts) = Some (m' # ms)"
    using ts(2) by simp
  ultimately show ?case by blast
qed

lemma JSON_flat_roundtrip: "JSON_parse_flat (JSON_stringify_flat ms) = Some ms"
proof (cases ms)
  case Nil
  then show ?thesis
    by (simp add: JSON_parse_flat_def JSON_stringify_flat_def is_json_space_def)
next
  case (Cons m ms')
  from lex_members [of m ms'] obtain ts where
    ts: "lex_json (stringify_members (m # ms') @ ''}'') =
           Some (TStr (fst m) # Colon # TStr (snd m) # ts)" "members ts = Some ms'"
    by blast
  have "lex_json (JSON_stringify_flat ms) = Some (LBrace # TStr (fst m) # Colon # TStr (snd m) # ts)"
    unfolding JSON_stringify_flat_def Cons using ts(1) by (simp add: is_json_space_def)
  then show ?thesis using ts(2) Cons by (simp add: JSON_parse_flat_def)
qed

lemma key_of_object_of_key: "key_of_object (object_of_key k) = Some k"
  by (simp add: key_of_object_def object_of_key_def)

lemma b64_groups_nonempty: "b64_groups (a # l) \<noteq> []"
proof (cases l)
  case Nil
  then show ?thesis by simp
next
  case (Cons b l')
  then show ?thesis by (cases l') simp_all
qed

lemma encode_cursor_nonempty: "encode_cursor k \<noteq> []"
proof -
  have "JSON_stringify_key k \<noteq> []"
    by (simp add: JSON_stringify_key_def JSON_stringify_flat_def)
  then obtain c cs where "JSON_stringify_key k = c # cs" by (cases "JSON_stringify_key k") auto
  then show ?thesis
    unfolding encode_cursor_def base64_encode_def by (simp add: b64_groups_nonempty)
qed

subsection \<open>The pagination cursor\<close>

text \<open>
  Claim C8. For every continuation key \<open>k\<close> that the store returns, the \<open>nextKey\<close> of the
  page is the base64 text of the JSON text of \<open>k\<close>; and sending that \<open>nextKey\<close> back as
  \<open>startKey\<close> makes the next query start from an \<open>ExclusiveStartKey\<close> that is \<open>k\<close> again:
  decoding after encoding is the identity.
\<close>

theorem cursor_roundtrip:
  "decode_cursor (encode_cursor k) = Some (object_of_key k) \<and>
   key_of_object (object_of_key k) = Some k \<and>
   (\<forall>P w sid lim sk command out.
      history_command sid lim sk = Inr command \<and> send_Query w command = Inr out \<and>
      LastEvaluatedKey out = Some k \<longrightarrow>
      (\<exists>h. getEventHistory P w sid lim sk = Inr h \<and>
           result_nextKey h = Some (base64_encode (JSON_stringify_key k)) \<and>
           (\<forall>lim'. history_command sid lim' (result_nextKey h) =
              Inr \<lparr>KeyCondition_shipmentId = sid, FilterExpression = None, Limit = lim',
                   ExclusiveStartKey = Some (object_of_key k)\<rparr>)))"
proof -
  have dec: "decode_cursor (encode_cursor k) = Some (object_of_key k)"
    by (simp add: decode_cursor_def encode_cursor_def base64_roundtrip JSON_stringify_key_def
        JSON_flat_roundtrip)
  have next_command: "history_command sid lim' (Some (encode_cursor k)) =
      Inr \<lparr>KeyCondition_shipmentId = sid, FilterExpression = None, Limit = lim',
           ExclusiveStartKey = Some (object_of_key k)\<rparr>" for sid lim'
    by (simp add: history_command_def encode_cursor_nonempty dec)
  have page: "\<exists>h. getEventHistory P w sid lim sk = Inr h \<and>
           result_nextKey h = Some (base64_encode (JSON_stringify_key k)) \<and>
           (\<forall>lim'. history_command sid lim' (result_nextKey h) =
              Inr \<lparr>KeyCondition_shipmentId = sid, FilterExpression = None, Limit = lim',
                   ExclusiveStartKey = Some (object_of_key k)\<rparr>)"
    if "history_command sid lim sk = Inr command" "send_Query w command = Inr out"
      "LastEvaluatedKey out = Some k" for P w sid lim sk command out
    using that next_command by (simp add: getEventHistory_def encode_cursor_def [symmetric])
  from dec key_of_object_of_key page show ?thesis by blast
qed

lemma mockEvents_partition: "partition_after mockEvents ''SHIP-123456'' None = mockEvents"
  by (simp add: partition_after_def mockEvents_def)

theorem cursor_roundtrip_witness:
  "\<exists>h. getEventHistory node_sample (world_of mockEvents) ''SHIP-123456'' 2 None = Inr h \<and>
       result_nextKey h =
         Some (base64_encode
           (JSON_stringify_key \<lparr>key_shipmentId = ''SHIP-123456'', key_id = ''event-2''\<rparr>)) \<and>
       (\<forall>lim'. history_command ''SHIP-123456'' lim' (result_nextKey h) =
          Inr \<lparr>KeyCondition_shipmentId = ''SHIP-123456'', FilterExpression = None, Limit = lim',
               ExclusiveStartKey = Some [(''shipmentId'', ''SHIP-123456''), (''id'', ''event-2'')]\<rparr>)"
proof -
  let ?k = "\<lparr>key_shipmentId = ''SHIP-123456'', key_id = ''event-2''\<rparr>"
  let ?command = "\<lparr>KeyCondition_shipmentId = ''SHIP-123456'', FilterExpression = None,
      Limit = 2, ExclusiveStartKey = None\<rparr>"
  have c: "history_command ''SHIP-123456'' 2 None = Inr ?command"
    by (simp add: history_command_def)
  have q: "send_Query (world_of mockEvents) ?command =
      Inr (run_query mockEvents ''SHIP-123456'' None 2 None)"
    by (simp add: send_Query_def world_of_def)
  have l: "LastEvaluatedKey (run_query mockEvents ''SHIP-123456'' None 2 None) = Some ?k"
    unfolding run_query_def mockEvents_partition by (simp add: mockEvents_def key_of_def)
  from cursor_roundtrip [of ?k] c q l show ?thesis
    by (simp add: object_of_key_def)
qed

subsection \<open>The limit of a page\<close>

lemma is_digit_digit_char: "d < 10 \<Longrightarrow> is_digit (digit_char d)"
  by (simp add: is_digit_nat digit_char_def)

lemma digit_val_digit_char: "d < 10 \<Longrightarrow> digit_val (digit_char d) = d"
  by (simp add: digit_val_def digit_char_def)

lemma show_nat_digits: "list_all is_digit (show_nat n) \<and> show_nat n \<noteq> []"
proof (induction n rule: show_nat.induct)
  case (1 n)
  show ?case
  proof (cases "n < 10")
    case True
    then show ?thesis by (simp add: show_nat.simps [of n] is_digit_digit_char)
  next
    case False
    with 1 show ?thesis by (simp add: show_nat.simps [of n] is_digit_digit_char)
  qed
qed

lemma decimal_value_snoc: "decimal_value (ds @ [c]) = 10 * decimal_value ds + digit_val c"
  by (simp add: decimal_value_def)

lemma decimal_value_show_nat: "decimal_value (show_nat n) = n"
proof (induction n rule: show_nat.induct)
  case (1 n)
  show ?case
  proof (cases "n < 10")
    case True
    then show ?thesis
      by (simp add: show_nat.simps [of n] decimal_value_def digit_val_digit_char)
  next
    case False
    with 1 show ?thesis
      by (simp add: show_nat.simps [of n] decimal_value_snoc digit_val_digit_char)
  qed
qed

lemma trimStart_digit: "is_digit c \<Longrightarrow> trimStart (c # cs) = c # cs"
proof -
  assume d: "is_digit c"
  then have n: "\<not> is_ascii_space c" "(of_char c :: nat) \<noteq> 194" "(of_char c :: nat) \<noteq> 225"
    "(of_char c :: nat) \<noteq> 226" "(of_char c :: nat) \<noteq> 227" "(of_char c :: nat) \<noteq> 239"
    by (auto simp: is_digit_nat is_ascii_space_def)
  show ?thesis
  proof (cases cs)
    case Nil
    with n show ?thesis by simp
  next
    case (Cons b cs')
    with n show ?thesis by (cases cs') (simp_all add: Let_def)
  qed
qed

lemma takeWhile_all: "list_all p xs \<Longrightarrow> takeWhile p xs = xs"
  by (induction xs) auto

lemma parseInt10_digits:
  assumes "list_all is_digit ds" "ds \<noteq> []"
  shows "parseInt10 ds = Num (int (decimal_value ds))"
proof -
  from assms obtain c cs where ds: "ds = c # cs" by (cases ds) auto
  with assms have c: "is_digit c" by simp
  then have "c \<noteq> CHR ''-''" "c \<noteq> CHR ''+''"
    unfolding char_eq_nat by (auto simp: is_digit_nat)
  moreover have "trimStart ds = ds" unfolding ds using c by (rule trimStart_digit)
  moreover have "takeWhile is_digit ds = ds" using assms(1) by (rule takeWhile_all)
  ultimately show ?thesis using assms(2) by (simp add: parseInt10_def ds)
qed

lemma parseInt10_show_nat: "parseInt10 (show_nat n) = Num (int n)"
  using parseInt10_digits [of "show_nat n"] show_nat_digits [of n]
  by (simp add: decimal_value_show_nat)

lemma limit_transform_cases:
  "limit_transform None = Num 50" "limit_transform (Some []) = Num 50"
  "v \<noteq> [] \<Longrightarrow> limit_transform (Some v) = parseInt10 v"
  by (simp_all add: limit_transform_def)

text \<open>
  Claim C9, as the program has it. An absent \<open>limit\<close> and an empty one give 50. A
  non-empty \<open>limit\<close> is accepted exactly when \<open>parseInt(limit, 10)\<close> is an integer from 1
  to 100, which is then the limit; in particular the numeral of 0 and of every number
  above 100 is rejected with the message of the schema. \<open>startKey\<close> is passed on as it
  is, whatever it is.
\<close>

theorem GetEventsQuerySchema_limit:
  "(qs ''limit'' = None \<or> qs ''limit'' = Some [] \<longrightarrow>
      GetEventsQuerySchema_safeParse qs = Inr \<lparr>limit = 50, startKey = qs ''startKey''\<rparr>) \<and>
   (\<forall>v. qs ''limit'' = Some v \<and> v \<noteq> [] \<longrightarrow>
      GetEventsQuerySchema_safeParse qs =
        (case parseInt10 v of
           Num n \<Rightarrow> if 1 \<le> n \<and> n \<le> 100 then Inr \<lparr>limit = n, startKey = qs ''startKey''\<rparr>
                    else Inl [([''limit''], ''Limit must be between 1 and 100'')]
         | NaN \<Rightarrow> Inl [([''limit''], ''Limit must be between 1 and 100'')])) \<and>
   (\<forall>n. qs ''limit'' = Some (show_nat n) \<longrightarrow>
      GetEventsQuerySchema_safeParse qs =
        (if 1 \<le> n \<and> n \<le> 100 then Inr \<lparr>limit = int n, startKey = qs ''startKey''\<rparr>
         else Inl [([''limit''], ''Limit must be between 1 and 100'')]))"
proof (intro conjI allI impI)
  assume "qs ''limit'' = None \<or> qs ''limit'' = Some []"
  then show "GetEventsQuerySchema_safeParse qs = Inr \<lparr>limit = 50, startKey = qs ''startKey''\<rparr>"
    by (auto simp: GetEventsQuerySchema_safeParse_def limit_transform_cases)
next
  fix v assume "qs ''limit'' = Some v \<and> v \<noteq> []"
  then show "GetEventsQuerySchema_safeParse qs =
        (case parseInt10 v of
           Num n \<Rightarrow> if 1 \<le> n \<and> n \<le> 100 then Inr \<lparr>limit = n, startKey = qs ''startKey''\<rparr>
                    else Inl [([''limit''], ''Limit must be between 1 and 100'')]
         | NaN \<Rightarrow> Inl [([''limit''], ''Limit must be between 1 and 100'')])"
    by (auto simp: GetEventsQuerySchema_safeParse_def limit_transform_cases split: jsnum.splits)
next
  fix n assume a: "qs ''limit'' = Some (show_nat n)"
  have "show_nat n \<noteq> []" using show_nat_digits by simp
  with a show "GetEventsQuerySchema_safeParse qs =
        (if 1 \<le> n \<and> n \<le> 100 then Inr \<lparr>limit = int n, startKey = qs ''startKey''\<rparr>
         else Inl [([''limit''], ''Limit must be between 1 and 100'')])"
    by (auto simp: GetEventsQuerySchema_safeParse_def limit_transform_cases parseInt10_show_nat)
qed

theorem GetEventsQuerySchema_limit_witness:
  "GetEventsQuerySchema_safeParse Map.empty = Inr \<lparr>limit = 50, startKey = None\<rparr> \<and>
   GetEventsQuerySchema_safeParse [''limit'' \<mapsto> show_nat 100, ''startKey'' \<mapsto> ''any text''] =
     Inr \<lparr>limit = 100, startKey = Some ''any text''\<rparr> \<and>
   GetEventsQuerySchema_safeParse [''limit'' \<mapsto> show_nat 0] =
     Inl [([''limit''], ''Limit must be between 1 and 100'')] \<and>
   GetEventsQuerySchema_safeParse [''limit'' \<mapsto> show_nat 101] =
     Inl [([''limit''], ''Limit must be between 1 and 100'')]"
  using GetEventsQuerySchema_limit [of Map.empty]
    GetEventsQuerySchema_limit [of "[''limit'' \<mapsto> show_nat 100, ''startKey'' \<mapsto> ''any text'']"]
    GetEventsQuerySchema_limit [of "[''limit'' \<mapsto> show_nat 0]"]
    GetEventsQuerySchema_limit [of "[''limit'' \<mapsto> show_nat 101]"]
  by simp

text \<open>
  Claim C9 as the specification words it requires a \<open>limit\<close> that is present to parse
  as an integer from 1 to 100. The empty string is present and does not parse, and the
  schema accepts it with the default.
\<close>

theorem GetEventsQuerySchema_empty_limit:
  "parseInt10 [] = NaN \<and>
   GetEventsQuerySchema_safeParse [''limit'' \<mapsto> []] = Inr \<lparr>limit = 50, startKey = None\<rparr>"
  by (simp add: parseInt10_def GetEventsQuerySchema_safeParse_def limit_transform_def)

subsection \<open>Responses, sorting and queries\<close>

lemma statusCode_simps:
  "statusCode (errorResponse e c) = c"
  "statusCode (validationErrorResponse errs) = 400"
  "statusCode (successResponse d m c) = c"
  "statusCode (paginatedResponse d h k m) = 200"
  by (simp_all add: errorResponse_def validationErrorResponse_def successResponse_def
      paginatedResponse_def createResponse_def)

lemma statusCode_recordEvent_catch: "statusCode (recordEvent_catch e) \<noteq> 201"
  by (simp add: recordEvent_catch_def statusCode_simps)




lemma js_sort_single: "js_sort cmp [x] = [x]"
  by (simp add: js_sort_def)





lemma valid_sample_id:
  "ShipmentEventParamsSchema_safeParse (Some [''shipmentId'' \<mapsto> ''SHIP-123456'']) =
     Some ''SHIP-123456''"
  by code_simp

subsection \<open>The history handler on an empty page\<close>




subsection \<open>Queries that read one item\<close>

text \<open>
  Both \<open>getLatestEvent\<close> and \<open>shippmentEventExist\<close> send a query with \<open>Limit: 1\<close>. Such a
  query reads the one item of the partition with the least \<open>id\<close>: that item is the
  ``latest'' event, and it alone is compared with the status and timestamp of a write.
\<close>

lemma run_query_Items:
  "Items (run_query tbl sid flt n start) =
     filter (passes_filter flt) (take n (partition_after tbl sid start))"
  by (simp add: run_query_def Let_def)

lemma send_Query_one:
  "outage w = None \<Longrightarrow>
   send_Query w \<lparr>KeyCondition_shipmentId = sid, FilterExpression = flt, Limit = 1,
                 ExclusiveStartKey = None\<rparr> = Inr (run_query (table w) sid flt 1 None)"
  by (simp add: send_Query_def)

lemma getLatestEvent_first_read:
  assumes "outage w = None"
  shows "getLatestEvent P w sid =
           Inr (case partition_after (table w) sid None of [] \<Rightarrow> None | e # _ \<Rightarrow> Some e)"
proof -
  show ?thesis
    unfolding getLatestEvent_def send_Query_one [OF assms]
    by (cases "partition_after (table w) sid None")
      (simp_all add: run_query_Items passes_filter_def js_sort_def)
qed

lemma shippmentEventExist_first_read:
  assumes "outage w = None"
  shows "shippmentEventExist w sid st ts =
           Inr (case partition_after (table w) sid None of
                  [] \<Rightarrow> (False, None)
                | e # _ \<Rightarrow> if status e = st \<and> timestamp e = ts then (True, Some e)
                           else (False, None))"
  unfolding shippmentEventExist_def send_Query_one [OF assms]
  by (cases "partition_after (table w) sid None") (simp_all add: run_query_Items passes_filter_def)

lemma getLatestEvent_handler_no_events:
  assumes "ShipmentEventParamsSchema_safeParse (pathParameters ev) = Some sid"
    and "outage w = None" and "list_all (\<lambda>e. shipmentId e \<noteq> sid) (table w)"
  shows "getLatestEvent_handler P w ev = errorResponse (''No events found for shipment '' @ sid) 404"
proof -
  from assms(3) have "filter (\<lambda>e. shipmentId e = sid) (table w) = []"
    by (simp add: list_all_iff filter_empty_conv)
  then have "partition_after (table w) sid None = []" by (simp add: partition_after_def)
  with assms(1) show ?thesis
    by (simp add: getLatestEvent_handler_def getLatestEvent_first_read [OF assms(2)])
qed

text \<open>
  Claim C1 says that the latest-event read returns the event of the greatest timestamp
  among the events of the shipment. The handler does so when the shipment has no event
  (404, lemma \<open>getLatestEvent_handler_no_events\<close>) or one, and not in general: on the
  three events of the service's own tests it returns \<open>event-1\<close>, of 08:00, while
  \<open>event-3\<close>, of 12:00, is stored for the same shipment; and after a write of
  \<open>created\<close> at 08:00 and one of \<open>picked_up\<close> at 10:00 into an empty table it returns
  the event of 08:00.
\<close>

theorem getLatestEvent_reads_one_item:
  "getLatestEvent_handler node_sample (world_of mockEvents) (get_event ''SHIP-123456'' None) =
     successResponse (Event (mockEvents ! 0)) ''Latest event retrieved successfully'' 200 \<and>
   getTime node_sample (mockEvents ! 0) = Num 1748246400000 \<and>
   getTime node_sample (mockEvents ! 2) = Num 1748260800000 \<and>
   shipmentId (mockEvents ! 2) = ''SHIP-123456'' \<and>
   map (\<lambda>e. (id' e, shipmentId e, timestamp e))
     (table (after_writes [sample_write ''created'' ''2025-05-26T08:00:00.000Z'' None,
                           sample_write ''picked_up'' ''2025-05-26T10:00:00.000Z'' None]
               (world_of []))) =
     [(''00000000-0000-4000-8000-000000000001'', ''SHIP-123456'', ''2025-05-26T08:00:00.000Z''),
      (''00000000-0000-4000-8000-000000000003'', ''SHIP-123456'', ''2025-05-26T10:00:00.000Z'')] \<and>
   getLatestEvent_handler node_sample
     (after_writes [sample_write ''created'' ''2025-05-26T08:00:00.000Z'' None,
                    sample_write ''picked_up'' ''2025-05-26T10:00:00.000Z'' None] (world_of []))
     (get_event ''SHIP-123456'' None) =
     successResponse
       (Event \<lparr>id' = ''00000000-0000-4000-8000-000000000001'', shipmentId = ''SHIP-123456'',
               timestamp = ''2025-05-26T08:00:00.000Z'', status = CREATED,
               location = Some ''Stockholm, Sweden'',
               details = Some ''Shipment has been created and registered in the system'',
               createdAt = ''2025-05-26T10:00:00.000Z''\<rparr>)
       ''Latest event retrieved successfully'' 200"
  by code_simp

text \<open>
  Claim C2 says that a write whose shipment, status and timestamp equal those of a
  stored event fails with 409 and leaves the store as it was. The handler does so when
  the stored event is the first item of its partition, and not in general: with the three
  events of the tests in the table, a write of \<open>picked_up\<close> at 10:00, the status and
  timestamp of \<open>event-2\<close>, is answered 201 and stored, so that two records carry the
  same triple; and after a write of \<open>created\<close> at 08:00 into an empty table, two
  successive writes of \<open>picked_up\<close> at 10:00 are both answered 201 and both stored.
\<close>

theorem duplicate_write_accepted:
  "recordEvent_handler node_sample (world_of mockEvents)
     (sample_write ''picked_up'' ''2025-05-26T10:00:00.000Z'' None) =
   (successResponse
      (Event \<lparr>id' = ''00000000-0000-4000-8000-000000000000'', shipmentId = ''SHIP-123456'',
              timestamp = ''2025-05-26T10:00:00.000Z'', status = PICKED_UP,
              location = Some ''Stockholm, Sweden'',
              details = Some ''Package has been picked up from sender'',
              createdAt = ''2025-05-26T10:00:00.000Z''\<rparr>)
      ''Event created successfully'' 201,
    \<lparr>table = mockEvents @
       [\<lparr>id' = ''00000000-0000-4000-8000-000000000001'', shipmentId = ''SHIP-123456'',
         timestamp = ''2025-05-26T10:00:00.000Z'', status = PICKED_UP,
         location = Some ''Stockholm, Sweden'',
         details = Some ''Package has been picked up from sender'',
         createdAt = ''2025-05-26T10:00:00.000Z''\<rparr>],
     clock_reads = 3, uuids_drawn = 2, outage = None\<rparr>) \<and>
   map id' (filter (\<lambda>e. shipmentId e = ''SHIP-123456'' \<and> status e = PICKED_UP \<and>
                          timestamp e = ''2025-05-26T10:00:00.000Z'')
              (table (snd (recordEvent_handler node_sample (world_of mockEvents)
                            (sample_write ''picked_up'' ''2025-05-26T10:00:00.000Z'' None))))) =
     [''event-2'', ''00000000-0000-4000-8000-000000000001''] \<and>
   statusCode (fst (recordEvent_handler node_sample
     (after_writes [sample_write ''created'' ''2025-05-26T08:00:00.000Z'' None,
                    sample_write ''picked_up'' ''2025-05-26T10:00:00.000Z'' None] (world_of []))
     (sample_write ''picked_up'' ''2025-05-26T10:00:00.000Z'' None))) = 201 \<and>
   map (\<lambda>e. (id' e, status e, timestamp e))
     (table (after_writes [sample_write ''created'' ''2025-05-26T08:00:00.000Z'' None,
                           sample_write ''picked_up'' ''2025-05-26T10:00:00.000Z'' None,
                           sample_write ''picked_up'' ''2025-05-26T10:00:00.000Z'' None]
               (world_of []))) =
     [(''00000000-0000-4000-8000-000000000001'', CREATED, ''2025-05-26T08:00:00.000Z''),
      (''00000000-0000-4000-8000-000000000003'', PICKED_UP, ''2025-05-26T10:00:00.000Z''),
      (''00000000-0000-4000-8000-000000000005'', PICKED_UP, ''2025-05-26T10:00:00.000Z'')]"
  by code_simp

subsection \<open>Recording an event\<close>

lemma createEvent_stored:
  assumes "createEvent P w sid ed = (Inr ev, w')"
  shows "table w' = filter (\<lambda>x. key_of x \<noteq> key_of ev) (table w) @ [ev] \<and>
         id' ev = uuidv4_nth P (uuids_drawn w) \<and> shipmentId ev = sid \<and>
         status ev = status ed \<and> location ev = location ed \<and> details ev = details ed \<and>
         (timestamp ed \<noteq> [] \<longrightarrow>
            timestamp ev = timestamp ed \<and>
            createdAt ev = Date_toISOString P (clock_nth P (clock_reads w)))"
  using assms
  by (auto simp: createEvent_def uuidv4_def new_Date_def send_Put_def Let_def
      split: if_splits option.splits sum.splits prod.splits)

lemma store_event_created:
  assumes "store_event P w sid req = (r, w')" "statusCode r = 201"
  shows "r = successResponse
               (Event \<lparr>id' = uuidv4_nth P (uuids_drawn w), shipmentId = sid,
                       timestamp = req_timestamp req, status = req_status req,
                       location = req_location req,
                       details = Some (details_or_default (req_details req) (req_status req)),
                       createdAt = Date_toISOString P (clock_nth P (clock_reads w))\<rparr>)
               ''Event created successfully'' 201 \<and>
         (\<exists>e. table w' = filter (\<lambda>x. key_of x \<noteq> key_of e) (table w) @ [e] \<and>
              id' e = uuidv4_nth P (Suc (uuids_drawn w)) \<and> shipmentId e = sid \<and>
              status e = req_status req \<and> location e = req_location req \<and>
              details e = Some (details_or_default (req_details req) (req_status req)) \<and>
              (req_timestamp req \<noteq> [] \<longrightarrow>
                 timestamp e = req_timestamp req \<and>
                 createdAt e = Date_toISOString P (clock_nth P (Suc (clock_reads w)))))"
proof -
  let ?w2 = "w\<lparr>uuids_drawn := Suc (uuids_drawn w), clock_reads := Suc (clock_reads w)\<rparr>"
  let ?ev = "\<lparr>id' = uuidv4_nth P (uuids_drawn w), shipmentId = sid,
                       timestamp = req_timestamp req, status = req_status req,
                       location = req_location req,
                       details = Some (details_or_default (req_details req) (req_status req)),
                       createdAt = Date_toISOString P (clock_nth P (clock_reads w))\<rparr>"
  obtain res w3 where c: "createEvent P ?w2 sid ?ev = (res, w3)" by (cases "createEvent P ?w2 sid ?ev")
  have s: "store_event P w sid req =
      (case res of Inl e \<Rightarrow> (recordEvent_catch e, w3)
       | Inr _ \<Rightarrow> (successResponse (Event ?ev) ''Event created successfully'' 201, w3))"
    using c by (simp add: store_event_def uuidv4_def new_Date_def Let_def split: sum.splits)
  show ?thesis
  proof (cases res)
    case (Inl e)
    with s assms statusCode_recordEvent_catch [of e] show ?thesis by simp
  next
    case (Inr stored)
    with s assms have r: "r = successResponse (Event ?ev) ''Event created successfully'' 201"
      and w: "w' = w3" by simp_all
    from createEvent_stored [OF c [unfolded Inr]] w
    have "table w' = filter (\<lambda>x. key_of x \<noteq> key_of stored) (table w) @ [stored] \<and>
              id' stored = uuidv4_nth P (Suc (uuids_drawn w)) \<and> shipmentId stored = sid \<and>
              status stored = req_status req \<and> location stored = req_location req \<and>
              details stored = Some (details_or_default (req_details req) (req_status req)) \<and>
              (req_timestamp req \<noteq> [] \<longrightarrow>
                 timestamp stored = req_timestamp req \<and>
                 createdAt stored = Date_toISOString P (clock_nth P (Suc (clock_reads w))))"
      by simp
    with r show ?thesis by blast
  qed
qed

lemma validateEventTimestamp_world:
  "snd (validateEventTimestamp P w ts) = w\<lparr>clock_reads := Suc (clock_reads w)\<rparr>"
  by (simp add: validateEventTimestamp_def new_Date_def Let_def)

lemma record_validated_created:
  assumes "record_validated P w sid req = (r, w')" "statusCode r = 201"
  shows "fst (validateEventTimestamp P w (req_timestamp req)) \<and>
         store_event P (w\<lparr>clock_reads := Suc (clock_reads w)\<rparr>) sid req = (r, w')"
proof -
  obtain ok w1 where v: "validateEventTimestamp P w (req_timestamp req) = (ok, w1)"
    by (cases "validateEventTimestamp P w (req_timestamp req)")
  with validateEventTimestamp_world [of P w "req_timestamp req"]
  have w1: "w1 = w\<lparr>clock_reads := Suc (clock_reads w)\<rparr>" by simp
  from assms v show ?thesis unfolding w1 [symmetric]
    by (auto simp: record_validated_def statusCode_simps statusCode_recordEvent_catch
        split: if_splits sum.splits)
qed

lemma recordEvent_handler_created:
  assumes "recordEvent_handler P w ev = (r, w')" "statusCode r = 201"
  shows "\<exists>sid b req.
           ShipmentEventParamsSchema_safeParse (pathParameters ev) = Some sid \<and>
           event_body ev = Some b \<and> CreateEventSchema_safeParse P (parseJSON P b) = Inr req \<and>
           record_validated P w sid req = (r, w')"
  using assms
  by (auto simp: recordEvent_handler_def statusCode_simps Let_def
      split: option.splits if_splits sum.splits)

lemma sample_write_params:
  "ShipmentEventParamsSchema_safeParse (pathParameters (sample_write st ts det)) = Some ''SHIP-123456''"
  by (simp add: sample_write_def post_event_def valid_sample_id)

lemma sample_write_created:
  "recordEvent_handler node_sample (world_of [])
     (sample_write ''picked_up'' ''2025-05-26T10:00:00.000Z'' (Some ''Left at the front desk'')) =
   (successResponse
      (Event \<lparr>id' = ''00000000-0000-4000-8000-000000000000'', shipmentId = ''SHIP-123456'',
              timestamp = ''2025-05-26T10:00:00.000Z'', status = PICKED_UP,
              location = Some ''Stockholm, Sweden'',
              details = Some ''Left at the front desk'',
              createdAt = ''2025-05-26T10:00:00.000Z''\<rparr>)
      ''Event created successfully'' 201,
    \<lparr>table =
       [\<lparr>id' = ''00000000-0000-4000-8000-000000000001'', shipmentId = ''SHIP-123456'',
         timestamp = ''2025-05-26T10:00:00.000Z'', status = PICKED_UP,
         location = Some ''Stockholm, Sweden'',
         details = Some ''Left at the front desk'',
         createdAt = ''2025-05-26T10:00:00.000Z''\<rparr>],
     clock_reads = 3, uuids_drawn = 2, outage = None\<rparr>)"
  by code_simp

lemma sample_write_request:
  "event_body (sample_write ''picked_up'' ''2025-05-26T10:00:00.000Z'' (Some ''Left at the front desk'')) = Some b
   \<Longrightarrow> CreateEventSchema_safeParse node_sample (parseJSON node_sample b) =
       Inr \<lparr>req_timestamp = ''2025-05-26T10:00:00.000Z'', req_status = PICKED_UP,
            req_location = Some ''Stockholm, Sweden'', req_details = Some ''Left at the front desk''\<rparr>"
proof -
  assume "event_body (sample_write ''picked_up'' ''2025-05-26T10:00:00.000Z'' (Some ''Left at the front desk'')) = Some b"
  then have b: "b = JSON_stringify_flat [(''timestamp'', ''2025-05-26T10:00:00.000Z''),
      (''status'', ''picked_up''), (''location'', ''Stockholm, Sweden''),
      (''details'', ''Left at the front desk'')]"
    by (simp add: sample_write_def post_event_def)
  show ?thesis unfolding b by code_simp
qed

text \<open>
  Claim C3 says that the event in the 201 response is the record that was stored.
  The handler draws an \<open>id\<close> and reads the clock for the event it returns, and
  \<open>createEvent\<close> draws another \<open>id\<close> and reads the clock again for the record it stores
  (lemma \<open>store_event_created\<close>): the response carries the first identifier, the table
  the second.
\<close>

theorem returned_event_not_the_stored_one:
  "recordEvent_handler node_sample (world_of [])
     (sample_write ''picked_up'' ''2025-05-26T10:00:00.000Z'' None) =
   (successResponse
      (Event \<lparr>id' = ''00000000-0000-4000-8000-000000000000'', shipmentId = ''SHIP-123456'',
              timestamp = ''2025-05-26T10:00:00.000Z'', status = PICKED_UP,
              location = Some ''Stockholm, Sweden'',
              details = Some ''Package has been picked up from sender'',
              createdAt = ''2025-05-26T10:00:00.000Z''\<rparr>)
      ''Event created successfully'' 201,
    \<lparr>table =
       [\<lparr>id' = ''00000000-0000-4000-8000-000000000001'', shipmentId = ''SHIP-123456'',
         timestamp = ''2025-05-26T10:00:00.000Z'', status = PICKED_UP,
         location = Some ''Stockholm, Sweden'',
         details = Some ''Package has been picked up from sender'',
         createdAt = ''2025-05-26T10:00:00.000Z''\<rparr>],
     clock_reads = 3, uuids_drawn = 2, outage = None\<rparr>)"
  by code_simp

text \<open>
  Claim C4, as the program has it. For every write that is stored (answered 201): if
  \<open>details\<close> is omitted or is the empty string, the stored \<open>details\<close> is the fixed
  description of the status; if \<open>details\<close> is a non-empty string, the stored
  \<open>details\<close> is that string. The descriptions are total over the ten statuses.
\<close>

theorem details_default_or_verbatim:
  assumes "recordEvent_handler P w ev = (r, w')" "statusCode r = 201"
  shows "\<exists>sid b req e.
           ShipmentEventParamsSchema_safeParse (pathParameters ev) = Some sid \<and>
           event_body ev = Some b \<and> CreateEventSchema_safeParse P (parseJSON P b) = Inr req \<and>
           table w' = filter (\<lambda>x. key_of x \<noteq> key_of e) (table w) @ [e] \<and>
           shipmentId e = sid \<and> status e = req_status req \<and>
           (req_details req = None \<or> req_details req = Some [] \<longrightarrow>
              details e = Some (SHIPMENT_STATUS_DESCRIPTIONS (req_status req))) \<and>
           (\<forall>d. req_details req = Some d \<and> d \<noteq> [] \<longrightarrow> details e = Some d) \<and>
           (\<forall>st. SHIPMENT_STATUS_DESCRIPTIONS st \<noteq> []) \<and>
           length VALID_SHIPMENT_STATUSES = 10 \<and> distinct VALID_SHIPMENT_STATUSES \<and>
           (\<forall>st. st \<in> set VALID_SHIPMENT_STATUSES)"
proof -
  from recordEvent_handler_created [OF assms] obtain sid b req where
    p: "ShipmentEventParamsSchema_safeParse (pathParameters ev) = Some sid"
       "event_body ev = Some b" "CreateEventSchema_safeParse P (parseJSON P b) = Inr req" and
    v: "record_validated P w sid req = (r, w')"
    by blast
  from record_validated_created [OF v assms(2)]
  have "store_event P (w\<lparr>clock_reads := Suc (clock_reads w)\<rparr>) sid req = (r, w')" by simp
  from store_event_created [OF this assms(2)] obtain e where
    e: "table w' = filter (\<lambda>x. key_of x \<noteq> key_of e) (table w) @ [e]" "shipmentId e = sid"
       "status e = req_status req"
       "details e = Some (details_or_default (req_details req) (req_status req))"
    by auto
  have d: "req_details req = None \<or> req_details req = Some [] \<longrightarrow>
              details e = Some (SHIPMENT_STATUS_DESCRIPTIONS (req_status req))"
    "\<forall>d. req_details req = Some d \<and> d \<noteq> [] \<longrightarrow> details e = Some d"
    using e(4) by (auto simp: details_or_default_def)
  have t: "SHIPMENT_STATUS_DESCRIPTIONS st \<noteq> []" "st \<in> set VALID_SHIPMENT_STATUSES" for st
    by (cases st; simp add: VALID_SHIPMENT_STATUSES_def)+
  have l: "length VALID_SHIPMENT_STATUSES = 10" "distinct VALID_SHIPMENT_STATUSES"
    by (simp_all add: VALID_SHIPMENT_STATUSES_def)
  from p e(1-3) d t l show ?thesis by blast
qed

theorem details_default_or_verbatim_witness:
  "\<exists>e. table (snd (recordEvent_handler node_sample (world_of [])
            (sample_write ''picked_up'' ''2025-05-26T10:00:00.000Z'' (Some ''Left at the front desk'')))) = [e] \<and>
       details e = Some ''Left at the front desk''"
proof -
  let ?ev = "sample_write ''picked_up'' ''2025-05-26T10:00:00.000Z'' (Some ''Left at the front desk'')"
  obtain r w' where h: "recordEvent_handler node_sample (world_of []) ?ev = (r, w')"
    by (cases "recordEvent_handler node_sample (world_of []) ?ev")
  with sample_write_created have c: "statusCode r = 201"
    by (auto simp: successResponse_def createResponse_def)
  from details_default_or_verbatim [OF h c] obtain b req e where
    f: "event_body ?ev = Some b" "CreateEventSchema_safeParse node_sample (parseJSON node_sample b) = Inr req"
       "table w' = filter (\<lambda>x. key_of x \<noteq> key_of e) (table (world_of [])) @ [e]"
       "\<forall>d. req_details req = Some d \<and> d \<noteq> [] \<longrightarrow> details e = Some d"
    by blast
  from sample_write_request [OF f(1)] f(2) have "req_details req = Some ''Left at the front desk''"
    by simp
  with f(4) have "details e = Some ''Left at the front desk''" by simp
  moreover from f(3) have "table w' = [e]" by (simp add: world_of_def)
  ultimately show ?thesis using h by simp
qed

text \<open>
  Claim C4 as the specification words it keeps every supplied value verbatim. A write
  that supplies the empty string as \<open>details\<close> is stored with the description of its
  status.
\<close>

theorem empty_details_replaced:
  "CreateEventSchema_safeParse node_sample
     (parseJSON node_sample
        (JSON_stringify_flat [(''timestamp'', ''2025-05-26T10:00:00.000Z''),
           (''status'', ''picked_up''), (''location'', ''Stockholm, Sweden''), (''details'', [])])) =
     Inr \<lparr>req_timestamp = ''2025-05-26T10:00:00.000Z'', req_status = PICKED_UP,
          req_location = Some ''Stockholm, Sweden'', req_details = Some []\<rparr> \<and>
   event_body (sample_write ''picked_up'' ''2025-05-26T10:00:00.000Z'' (Some [])) =
     Some (JSON_stringify_flat [(''timestamp'', ''2025-05-26T10:00:00.000Z''),
           (''status'', ''picked_up''), (''location'', ''Stockholm, Sweden''), (''details'', [])]) \<and>
   map details (table (snd (recordEvent_handler node_sample (world_of [])
                  (sample_write ''picked_up'' ''2025-05-26T10:00:00.000Z'' (Some []))))) =
     [Some ''Package has been picked up from sender'']"
  by code_simp

text \<open>
  Claim C10. For every write request that passes the checks of its path parameter and
  body and whose timestamp parses to an instant more than 365 days before the clock
  reading, the response is 400 with the error \<open>Event timestamp cannot be in the future\<close>
  and nothing is stored; the response is the same one that a timestamp more than five
  minutes ahead gets.
\<close>

theorem out_of_window_rejected_as_future:
  assumes "ShipmentEventParamsSchema_safeParse (pathParameters ev) = Some sid"
    and "event_body ev = Some b" "b \<noteq> []" "truthy (parseJSON P b)"
    and "CreateEventSchema_safeParse P (parseJSON P b) = Inr req"
    and "Date_parse P (req_timestamp req) = Num t"
    and "t < clock_nth P (clock_reads w) - 365 * 24 * 60 * 60 * 1000 \<or>
         clock_nth P (clock_reads w) + 5 * 60 * 1000 < t"
  shows "fst (recordEvent_handler P w ev) =
           \<lparr>statusCode = 400,
            body = \<lparr>success = False, data = None,
                    error = Some ''Event timestamp cannot be in the future'',
                    message = None, pagination = None\<rparr>\<rparr> \<and>
         table (snd (recordEvent_handler P w ev)) = table w"
proof -
  have h: "recordEvent_handler P w ev = record_validated P w sid req"
    using assms(1-5) by (simp add: recordEvent_handler_def Let_def)
  obtain ok w1 where v: "validateEventTimestamp P w (req_timestamp req) = (ok, w1)"
    by (cases "validateEventTimestamp P w (req_timestamp req)")
  have "\<not> fst (validateEventTimestamp P w (req_timestamp req))"
    using assms(6,7) by (auto simp: validateEventTimestamp_def new_Date_def Let_def)
  with v validateEventTimestamp_world [of P w "req_timestamp req"]
  have "\<not> ok" "w1 = w\<lparr>clock_reads := Suc (clock_reads w)\<rparr>" by simp_all
  with v show ?thesis unfolding h
    by (simp add: record_validated_def errorResponse_def createResponse_def)
qed

theorem out_of_window_rejected_as_future_witness:
  "fst (recordEvent_handler node_sample (world_of [])
          (sample_write ''picked_up'' ''2024-01-01T00:00:00.000Z'' None)) =
     \<lparr>statusCode = 400,
      body = \<lparr>success = False, data = None,
              error = Some ''Event timestamp cannot be in the future'',
              message = None, pagination = None\<rparr>\<rparr> \<and>
   fst (recordEvent_handler node_sample (world_of [])
          (sample_write ''picked_up'' ''2030-01-01T00:00:00.000Z'' None)) =
     fst (recordEvent_handler node_sample (world_of [])
          (sample_write ''picked_up'' ''2024-01-01T00:00:00.000Z'' None))"
proof -
  let ?old = "''2024-01-01T00:00:00.000Z''" and ?new = "''2030-01-01T00:00:00.000Z''"
  let ?body = "\<lambda>ts. JSON_stringify_flat [(''timestamp'', ts), (''status'', ''picked_up''),
      (''location'', ''Stockholm, Sweden'')]"
  let ?req = "\<lambda>ts. \<lparr>req_timestamp = ts, req_status = PICKED_UP,
      req_location = Some ''Stockholm, Sweden'', req_details = None\<rparr>"
  have b: "event_body (sample_write ''picked_up'' ts None) = Some (?body ts)" for ts
    by (simp add: sample_write_def post_event_def)
  have n: "?body ts \<noteq> []" for ts by (simp add: JSON_stringify_flat_def)
  have t: "truthy (parseJSON node_sample (?body ?old))" "truthy (parseJSON node_sample (?body ?new))"
    by code_simp+
  have r: "CreateEventSchema_safeParse node_sample (parseJSON node_sample (?body ?old)) = Inr (?req ?old)"
    "CreateEventSchema_safeParse node_sample (parseJSON node_sample (?body ?new)) = Inr (?req ?new)"
    by code_simp+
  have d: "Date_parse node_sample (req_timestamp (?req ?old)) = Num 1704067200000"
    "Date_parse node_sample (req_timestamp (?req ?new)) = Num 1893456000000"
    by (simp_all add: node_sample_def sample_Date_parse_def)
  have c: "clock_nth node_sample (clock_reads (world_of [])) = 1748253600000"
    by (simp add: node_sample_def)
  from out_of_window_rejected_as_future [OF sample_write_params b n t(1) r(1) d(1)]
    out_of_window_rejected_as_future [OF sample_write_params b n t(2) r(2) d(2)]
  show ?thesis by (simp add: c)
qed

end
